theory Spec2Isabelle
  imports Main "HOL-Library.Sublist"
begin

section \<open>Data model\<close>

text \<open>
  JavaScript exceptions. \<open>Error m\<close> is an \<open>Error\<close> object with message \<open>m\<close>,
  \<open>TypeError m\<close> the engine's own error for a property read on \<open>undefined\<close>, and
  \<open>Thrown s\<close> a thrown value that is not an \<open>Error\<close> (with \<open>String(value) = s\<close>).
\<close>

datatype error = Error string | TypeError string | Thrown string

text \<open>\<open>error instanceof Error ? error.message : String(error)\<close>\<close>

fun message_of :: "error \<Rightarrow> string" where
  "message_of (Error m) = m"
| "message_of (TypeError m) = m"
| "message_of (Thrown s) = s"

text \<open>
  A content block of a model response. The type \<open>'j\<close> stands for JSON values (the
  \<open>input\<close> of a tool request). \<open>OtherBlock ty\<close> is a block whose \<open>type\<close> is neither
  \<open>"text"\<close> nor \<open>"tool_use"\<close>.
\<close>

datatype 'j block =
    Text (block_text: string)
  | ToolUse (block_name: string) (block_input: 'j) (block_id: string)
  | OtherBlock string

datatype 'j response = Response (resp_content: "'j block list")

datatype role = User | Assistant

text \<open>The two kinds of structured message content that \<open>processQuery\<close> pushes.\<close>

datatype ('j, 'r) part =
    ToolUsePart string 'j string
  | ToolResultPart string 'r

datatype ('j, 'r) msg_content = Str string | Parts "('j, 'r) part list"

datatype ('j, 'r) message = Message (role: role) (msg_content: "('j, 'r) msg_content")

datatype 'j tool = Tool (tool_name: string) (description: "string option") (input_schema: 'j)

record ('j, 'r) payload =
  anthropic_version :: string
  max_tokens :: nat
  messages :: "('j, 'r) message list"
  tools :: "'j tool list"

text \<open>The result object of \<open>mcp.callTool\<close>; only its \<open>content\<close> is read.\<close>

datatype 'r call_result = CallResult (content: 'r)

text \<open>
  The options given to \<open>new StdioClientTransport\<close>. \<open>env_vars = None\<close> when the
  \<open>env\<close> option is left out; \<open>command = None\<close> when the value passed is \<open>undefined\<close>
  (a configuration entry read from JSON may lack it).
\<close>

record transport =
  command :: "string option"
  args :: "string list"
  env_vars :: "(string \<rightharpoonup> string) option"

text \<open>
  One entry of the configuration file. The file is parsed JSON, so each of the three
  properties may be missing.
\<close>

datatype MCPServerConfig =
  ServerConfig (cfg_command: "string option") (cfg_args: "string list option")
    (cfg_url: "string option")

datatype config = Config (mcpServers: "(string \<rightharpoonup> MCPServerConfig) option")

text \<open>The fields of \<open>MCPClient\<close> that the program assigns.\<close>

record 'j client =
  client_transport :: "transport option"
  client_tools :: "'j tool list"

text \<open>
  How a call ended: it returned, it threw, or it never settles (it waits for input
  that never arrives).
\<close>

datatype completion = Normal | Threw error | Pending

text \<open>
  Everything the program does to the outside world, in the order it happens. The
  outcome of each external call is recorded with the call.
\<close>

datatype ('j, 'r) event =
    Send "('j, 'r) payload" "error + 'j response"
  | CallTool string 'j "error + 'r call_result"
  | Console string
  | ConsoleErr string error
  | ConsoleNames string "string list"
  | PrintUsage
  | Question string "string option"
  | RlClose
  | Prompt string bool "string option"
  | McpConnect transport "error + unit"
  | ListTools "error + 'j tool list"
  | McpClose
  | Exit nat

text \<open>
  The external collaborators. Each may answer differently on every call, so it reads
  the history of events so far. The file system and the process environment are
  fixed during start-up.
  \<^item> \<open>bedrock_send\<close>: \<open>this.bedrock.send(command)\<close> followed by \<open>JSON.parse\<close> of the
    response body, that is the \<open>try\<close> block of \<open>invokeClaudeModel\<close>; \<open>Inl\<close> is what
    it throws.
  \<^item> \<open>mcp_callTool\<close>, \<open>mcp_connect\<close>, \<open>mcp_listTools\<close>: the calls on the MCP SDK client
    (\<open>listTools\<close> already mapped to \<open>name\<close>, \<open>description\<close>, \<open>input_schema\<close>).
  \<^item> \<open>terminal\<close>: the line typed in answer to a credential prompt read with
    \<open>rl.question\<close>; \<open>isTTY\<close>: \<open>process.stdin.isTTY\<close>.
  \<^item> \<open>stringify\<close>: \<open>JSON.stringify\<close>.
  \<^item> \<open>platform\<close>, \<open>execPath\<close>, \<open>process_env\<close>, \<open>cwd\<close>: \<open>process.platform\<close>,
    \<open>process.execPath\<close>, \<open>process.env\<close>, \<open>process.cwd()\<close>.
  \<^item> \<open>path_join\<close>, \<open>existsSync\<close>, \<open>readFile\<close>, \<open>JSON_parse\<close>: \<open>path.join\<close>,
    \<open>fs.existsSync\<close>, \<open>fs.promises.readFile\<close> and \<open>JSON.parse\<close> of a configuration
    file; \<open>Inl\<close> is what they throw.
\<close>

record ('j, 'r) env =
  bedrock_send :: "('j, 'r) event list \<Rightarrow> ('j, 'r) payload \<Rightarrow> error + 'j response"
  mcp_callTool :: "('j, 'r) event list \<Rightarrow> string \<Rightarrow> 'j \<Rightarrow> error + 'r call_result"
  mcp_connect :: "('j, 'r) event list \<Rightarrow> transport \<Rightarrow> error + unit"
  mcp_listTools :: "('j, 'r) event list \<Rightarrow> error + 'j tool list"
  terminal :: "('j, 'r) event list \<Rightarrow> string \<Rightarrow> bool \<Rightarrow> string"
  isTTY :: bool
  stringify :: "'j \<Rightarrow> string"
  platform :: string
  execPath :: string
  process_env :: "string \<rightharpoonup> string"
  cwd :: string
  path_join :: "string list \<Rightarrow> string"
  existsSync :: "string \<Rightarrow> bool"
  readFile :: "string \<Rightarrow> error + string"
  JSON_parse :: "string \<Rightarrow> error + config"

section \<open>Model Gateway and Conversation Engine\<close>

text \<open>\<open>Array.prototype.join\<close> on strings.\<close>

fun join :: "string \<Rightarrow> string list \<Rightarrow> string" where
  "join sep [] = []"
| "join sep [x] = x"
| "join sep (x # y # ys) = x @ sep @ join sep (y # ys)"

text \<open>The \<open>payload\<close> object built by \<open>invokeClaudeModel\<close>.\<close>

definition mk_payload :: "('j, 'r) message list \<Rightarrow> 'j tool list \<Rightarrow> ('j, 'r) payload" where
  "mk_payload msgs tls =
     \<lparr>anthropic_version = ''bedrock-2023-05-31'', max_tokens = 1000,
      messages = msgs, tools = tls\<rparr>"

definition invokeClaudeModel ::
  "('j, 'r) env \<Rightarrow> ('j, 'r) message list \<Rightarrow> 'j tool list \<Rightarrow> ('j, 'r) event list
    \<Rightarrow> (error + 'j response) \<times> ('j, 'r) event list" where
  "invokeClaudeModel E msgs tls tr =
     (let payload = mk_payload msgs tls;
          res = bedrock_send E tr payload;
          tr1 = tr @ [Send payload res]
      in case res of
           Inr responseBody \<Rightarrow> (Inr responseBody, tr1)
         | Inl e \<Rightarrow>
             (Inl (Error (''Failed to invoke Bedrock model: '' @ message_of e)),
              tr1 @ [ConsoleErr ''Error invoking Bedrock model:'' e]))"

text \<open>
  \<open>followUpResponse.content[0].type\<close>: on an empty list \<open>content[0]\<close> is
  \<open>undefined\<close> and reading \<open>.type\<close> throws.
\<close>

definition followUpFirst :: "'j response \<Rightarrow> error + 'j block" where
  "followUpFirst r =
     (case resp_content r of
        [] \<Rightarrow> Inl (TypeError ''Cannot read properties of undefined (reading 'type')'')
      | b # _ \<Rightarrow> Inr b)"

definition callText :: "('j, 'r) env \<Rightarrow> string \<Rightarrow> 'j \<Rightarrow> string" where
  "callText E toolName toolArgs =
     ''[Calling tool '' @ toolName @ '' with args '' @ stringify E toolArgs @ '']''"

text \<open>
  The \<open>for (const content of response.content)\<close> loop of \<open>processQuery\<close>, with its
  two mutable locals \<open>messages\<close> and \<open>finalText\<close>. The third local, \<open>toolResults\<close>, is
  only pushed to and never read, so it is left out. A block that is neither text nor a
  tool request is skipped.
\<close>

fun processContent ::
  "('j, 'r) env \<Rightarrow> 'j tool list \<Rightarrow> 'j block list \<Rightarrow> ('j, 'r) message list \<Rightarrow> string list
    \<Rightarrow> ('j, 'r) event list
    \<Rightarrow> (error + ('j, 'r) message list \<times> string list) \<times> ('j, 'r) event list" where
  "processContent E tls [] msgs finalText tr = (Inr (msgs, finalText), tr)"
| "processContent E tls (Text t # rest) msgs finalText tr =
     processContent E tls rest msgs (finalText @ [t]) tr"
| "processContent E tls (OtherBlock ty # rest) msgs finalText tr =
     processContent E tls rest msgs finalText tr"
| "processContent E tls (ToolUse toolName toolArgs toolId # rest) msgs finalText tr =
     (let res = mcp_callTool E tr toolName toolArgs;
          tr1 = tr @ [CallTool toolName toolArgs res]
      in case res of
           Inl e \<Rightarrow> (Inl e, tr1)
         | Inr result \<Rightarrow>
            (let finalText1 = finalText @ [callText E toolName toolArgs];
                 msgs1 = msgs @
                   [Message Assistant (Parts [ToolUsePart toolName toolArgs toolId]),
                    Message User (Parts [ToolResultPart toolId (content result)])]
             in case invokeClaudeModel E msgs1 tls tr1 of
                  (Inl e, tr2) \<Rightarrow> (Inl e, tr2)
                | (Inr followUpResponse, tr2) \<Rightarrow>
                   (case followUpFirst followUpResponse of
                      Inl e \<Rightarrow> (Inl e, tr2)
                    | Inr (Text t) \<Rightarrow> processContent E tls rest msgs1 (finalText1 @ [t]) tr2
                    | Inr _ \<Rightarrow> processContent E tls rest msgs1 finalText1 tr2)))"

definition processQuery ::
  "('j, 'r) env \<Rightarrow> 'j tool list \<Rightarrow> string \<Rightarrow> ('j, 'r) event list
    \<Rightarrow> (error + string) \<times> ('j, 'r) event list" where
  "processQuery E tls query tr =
     (let msgs = [Message User (Str query)]
      in case invokeClaudeModel E msgs tls tr of
           (Inl e, tr1) \<Rightarrow> (Inl e, tr1)
         | (Inr response, tr1) \<Rightarrow>
            (case processContent E tls (resp_content response) msgs [] tr1 of
               (Inl e, tr2) \<Rightarrow> (Inl e, tr2)
             | (Inr (msgs', finalText), tr2) \<Rightarrow> (Inr (join [CHR 0x0A] finalText), tr2)))"

section \<open>Session Shell: the interactive loop\<close>

text \<open>
  \<open>String.prototype.toLowerCase\<close> on the letters A to Z. Strings are byte lists here;
  no character outside A to Z has a lower-case form made of the letters q, u, i, t, so
  the comparison with \<open>"quit"\<close> is the one the program makes.
\<close>

definition upper_lower :: "(char \<times> char) list" where
  "upper_lower = zip ''ABCDEFGHIJKLMNOPQRSTUVWXYZ'' ''abcdefghijklmnopqrstuvwxyz''"

definition lower_char :: "char \<Rightarrow> char" where
  "lower_char c = (case map_of upper_lower c of Some d \<Rightarrow> d | None \<Rightarrow> c)"

definition toLowerCase :: "string \<Rightarrow> string" where
  "toLowerCase s = map lower_char s"

definition query_prompt :: string where
  "query_prompt = CHR 0x0A # ''Query: ''"

text \<open>
  The \<open>while (true)\<close> loop of \<open>chatLoop\<close>. The list holds the lines the user will
  type; when it is used up, \<open>rl.question\<close> has shown its prompt and never resolves.
\<close>

fun chatLoop_while ::
  "('j, 'r) env \<Rightarrow> 'j tool list \<Rightarrow> string list \<Rightarrow> ('j, 'r) event list
    \<Rightarrow> completion \<times> ('j, 'r) event list" where
  "chatLoop_while E tls [] tr = (Pending, tr @ [Question query_prompt None])"
| "chatLoop_while E tls (message # rest) tr =
     (let tr1 = tr @ [Question query_prompt (Some message)]
      in if toLowerCase message = ''quit'' then (Normal, tr1)
         else case processQuery E tls message tr1 of
                (Inl e, tr2) \<Rightarrow> (Threw e, tr2)
              | (Inr response, tr2) \<Rightarrow>
                  chatLoop_while E tls rest (tr2 @ [Console (CHR 0x0A # response)]))"

definition chatLoop ::
  "('j, 'r) env \<Rightarrow> 'j tool list \<Rightarrow> string list \<Rightarrow> ('j, 'r) event list
    \<Rightarrow> completion \<times> ('j, 'r) event list" where
  "chatLoop E tls lines tr =
     (let tr0 = tr @
            [Console (CHR 0x0A #
               ''MCP Client Started with AWS Bedrock (using IAM role authentication)!''),
             Console ''Type your queries or 'quit' to exit.'']
      in case chatLoop_while E tls lines tr0 of
           (Pending, tr1) \<Rightarrow> (Pending, tr1)
         | (c, tr1) \<Rightarrow> (c, tr1 @ [RlClose]))"

section \<open>Tool Server Connector\<close>

text \<open>\<open>String.prototype.endsWith\<close>\<close>

definition endsWith :: "string \<Rightarrow> string \<Rightarrow> bool" where
  "endsWith s suf =
     (length suf \<le> length s \<and> drop (length s - length suf) s = suf)"

text \<open>\<open>connectWithTransport\<close> of index.ts: failures of the SDK propagate as they are.\<close>

definition connectWithTransport ::
  "('j, 'r) env \<Rightarrow> 'j client \<Rightarrow> ('j, 'r) event list
    \<Rightarrow> (error + 'j client) \<times> ('j, 'r) event list" where
  "connectWithTransport E c tr =
     (case client_transport c of
        None \<Rightarrow> (Inl (Error ''Transport not initialized''), tr)
      | Some t \<Rightarrow>
         (let r = mcp_connect E tr t; tr1 = tr @ [McpConnect t r]
          in case r of
               Inl e \<Rightarrow> (Inl e, tr1)
             | Inr _ \<Rightarrow>
                (let toolsResult = mcp_listTools E tr1; tr2 = tr1 @ [ListTools toolsResult]
                 in case toolsResult of
                      Inl e \<Rightarrow> (Inl e, tr2)
                    | Inr ts \<Rightarrow>
                        (Inr (c\<lparr>client_tools := ts\<rparr>),
                         tr2 @ [ConsoleNames ''Connected to server with tools:''
                                  (map tool_name ts)]))))"

text \<open>
  \<open>connectWithTransport\<close> of index_auth.ts: the same calls inside a \<open>try\<close>; the
  \<open>catch\<close> logs the failure and throws \<open>Connection failed: ...\<close>.
\<close>

definition connectWithTransport_auth ::
  "('j, 'r) env \<Rightarrow> 'j client \<Rightarrow> ('j, 'r) event list
    \<Rightarrow> (error + 'j client) \<times> ('j, 'r) event list" where
  "connectWithTransport_auth E c tr =
     (case client_transport c of
        None \<Rightarrow> (Inl (Error ''Transport not initialized''), tr)
      | Some t \<Rightarrow>
         (case connectWithTransport E c tr of
            (Inl e, tr1) \<Rightarrow>
              (Inl (Error (''Connection failed: '' @ message_of e)),
               tr1 @ [ConsoleErr ''Failed to connect to MCP server:'' e])
          | (Inr c', tr1) \<Rightarrow> (Inr c', tr1)))"

text \<open>The \<open>command\<close> chosen by \<open>connectToLocalServer\<close>.\<close>

definition launcher :: "('j, 'r) env \<Rightarrow> bool \<Rightarrow> string" where
  "launcher E isPy =
     (if isPy then (if platform E = ''win32'' then ''python'' else ''python3'')
      else execPath E)"

definition connectToLocalServer ::
  "('j, 'r) env \<Rightarrow> 'j client \<Rightarrow> string \<Rightarrow> ('j, 'r) event list
    \<Rightarrow> (error + 'j client) \<times> ('j, 'r) event list" where
  "connectToLocalServer E c serverScriptPath tr =
     (let isJs = endsWith serverScriptPath ''.js'';
          isPy = endsWith serverScriptPath ''.py''
      in if \<not> isJs \<and> \<not> isPy
         then (Inl (Error ''Server script must be a .js or .py file''), tr)
         else connectWithTransport E
                (c\<lparr>client_transport :=
                     Some \<lparr>command = Some (launcher E isPy), args = [serverScriptPath],
                           env_vars = None\<rparr>\<rparr>) tr)"

definition connectToLocalServer_auth ::
  "('j, 'r) env \<Rightarrow> 'j client \<Rightarrow> string \<Rightarrow> ('j, 'r) event list
    \<Rightarrow> (error + 'j client) \<times> ('j, 'r) event list" where
  "connectToLocalServer_auth E c serverScriptPath tr =
     (let isJs = endsWith serverScriptPath ''.js'';
          isPy = endsWith serverScriptPath ''.py''
      in if \<not> isJs \<and> \<not> isPy
         then (Inl (Error ''Server script must be a .js or .py file''), tr)
         else connectWithTransport_auth E
                (c\<lparr>client_transport :=
                     Some \<lparr>command = Some (launcher E isPy), args = [serverScriptPath],
                           env_vars = None\<rparr>\<rparr>) tr)"

section \<open>Configuration\<close>

text \<open>JavaScript truthiness of an optional string: present and not empty.\<close>

fun truthy :: "string option \<Rightarrow> string option" where
  "truthy None = None"
| "truthy (Some s) = (if s = [] then None else Some s)"

text \<open>\<open>process.env.HOME || process.env.USERPROFILE || ''\<close>\<close>

definition homeDir :: "('j, 'r) env \<Rightarrow> string" where
  "homeDir E =
     (case truthy (process_env E ''HOME'') of
        Some h \<Rightarrow> h
      | None \<Rightarrow> (case truthy (process_env E ''USERPROFILE'') of Some u \<Rightarrow> u | None \<Rightarrow> []))"

definition defaultPaths :: "('j, 'r) env \<Rightarrow> string list" where
  "defaultPaths E =
     [path_join E [cwd E, ''.mcp.json''],
      path_join E [cwd E, ''mcp-config.json''],
      path_join E [homeDir E, ''.mcp'', ''config.json'']]"

text \<open>
  The body of the \<open>try\<close> in \<open>loadConfig\<close> for one path: \<open>None\<close> when the file
  does not exist, otherwise the outcome of reading and parsing it.
\<close>

definition tryPath :: "('j, 'r) env \<Rightarrow> string \<Rightarrow> (error + config) option" where
  "tryPath E p =
     (if existsSync E p
      then (case readFile E p of
              Inl e \<Rightarrow> Some (Inl e)
            | Inr fileContent \<Rightarrow> Some (JSON_parse E fileContent))
      else None)"

text \<open>The \<open>for (const p of paths)\<close> loop of \<open>loadConfig\<close> and its fallback.\<close>

fun loadConfig_for ::
  "('j, 'r) env \<Rightarrow> string list \<Rightarrow> ('j, 'r) event list \<Rightarrow> config \<times> ('j, 'r) event list" where
  "loadConfig_for E [] tr = (Config (Some Map.empty), tr)"
| "loadConfig_for E (p # ps) tr =
     (case tryPath E p of
        None \<Rightarrow> loadConfig_for E ps tr
      | Some (Inr cfg) \<Rightarrow> (cfg, tr)
      | Some (Inl e) \<Rightarrow>
          loadConfig_for E ps
            (tr @ [ConsoleErr (''Failed to read config from '' @ p @ '':'') e]))"

definition loadConfig ::
  "('j, 'r) env \<Rightarrow> string option \<Rightarrow> ('j, 'r) event list \<Rightarrow> config \<times> ('j, 'r) event list" where
  "loadConfig E configPath tr =
     (let paths = (case truthy configPath of Some cp \<Rightarrow> [cp] | None \<Rightarrow> defaultPaths E)
      in loadConfig_for E paths tr)"

text \<open>
  The property names every plain object inherits from \<open>Object.prototype\<close>. Reading
  one of them from an object that has no such key of its own yields the inherited
  member, which is truthy and has no \<open>url\<close>, \<open>command\<close> or \<open>args\<close>.
\<close>

definition prototype_names :: "string list" where
  "prototype_names =
     [''constructor'', ''__defineGetter__'', ''__defineSetter__'', ''hasOwnProperty'',
      ''__lookupGetter__'', ''__lookupSetter__'', ''isPrototypeOf'',
      ''propertyIsEnumerable'', ''toString'', ''valueOf'', ''__proto__'',
      ''toLocaleString'']"

text \<open>
  \<open>config.mcpServers[serverName]\<close>, with \<open>None\<close> for the falsy outcomes that make
  \<open>!config.mcpServers || !config.mcpServers[serverName]\<close> true.
\<close>

definition lookupServer :: "config \<Rightarrow> string \<Rightarrow> MCPServerConfig option" where
  "lookupServer cfg serverName =
     (case mcpServers cfg of
        None \<Rightarrow> None
      | Some servers \<Rightarrow>
         (case servers serverName of
            Some sc \<Rightarrow> Some sc
          | None \<Rightarrow>
              if serverName \<in> set prototype_names
              then Some (ServerConfig None None None) else None))"

definition notFound :: "string \<Rightarrow> error" where
  "notFound serverName =
     Error (''Server '' @ [CHR 0x22] @ serverName @ [CHR 0x22] @ '' not found in configuration'')"

text \<open>An optional string inside a template literal.\<close>

definition undefinedText :: "string option \<Rightarrow> string" where
  "undefinedText v = (case v of None \<Rightarrow> ''undefined'' | Some s \<Rightarrow> s)"

text \<open>
  \<open>connectToRemoteServer\<close> of index.ts. \<open>serverConfig.args.join(' ')\<close> throws when
  the entry has no \<open>args\<close>.
\<close>

definition connectToRemoteServer ::
  "('j, 'r) env \<Rightarrow> 'j client \<Rightarrow> string \<Rightarrow> string option \<Rightarrow> ('j, 'r) event list
    \<Rightarrow> (error + 'j client) \<times> ('j, 'r) event list" where
  "connectToRemoteServer E c serverName configPath tr =
     (case loadConfig E configPath tr of (cfg, tr1) \<Rightarrow>
        (case lookupServer cfg serverName of
           None \<Rightarrow> (Inl (notFound serverName), tr1)
         | Some serverConfig \<Rightarrow>
            (let tr2 = tr1 @ [Console (''Connecting to remote server: '' @ serverName)]
             in case cfg_args serverConfig of
                  None \<Rightarrow>
                    (Inl (TypeError ''Cannot read properties of undefined (reading 'join')''),
                     tr2)
                | Some as \<Rightarrow>
                    connectWithTransport E
                      (c\<lparr>client_transport :=
                           Some \<lparr>command = cfg_command serverConfig, args = as,
                                 env_vars = None\<rparr>\<rparr>)
                      (tr2 @ [Console (''Command: '' @ undefinedText (cfg_command serverConfig)
                                        @ '' '' @ join '' '' as)]))))"

text \<open>
  \<open>promptForInput\<close>. A result \<open>None\<close> means that the promise never settles.
  \<^item> For a password on a terminal (\<open>isPassword && process.stdin.isTTY\<close>) the prompt is
    written and a new promise is returned without \<open>await\<close> from inside the
    \<open>try\<close>. The \<open>finally\<close> therefore runs at once: \<open>rl.close()\<close> pauses stdin and
    leaves raw mode before any key is read, no \<open>data\<close> event reaches the listener, and
    the promise is never resolved.
  \<^item> Otherwise the answer is the line read by \<open>rl.question\<close>.
  The event \<open>Prompt prompt isPassword answer\<close> records the prompt shown and the answer
  obtained, if any.
\<close>

definition promptForInput ::
  "('j, 'r) env \<Rightarrow> string \<Rightarrow> bool \<Rightarrow> ('j, 'r) event list
    \<Rightarrow> string option \<times> ('j, 'r) event list" where
  "promptForInput E prompt isPassword tr =
     (if isPassword \<and> isTTY E
      then (None, tr @ [Prompt prompt isPassword None])
      else (let answer = terminal E tr prompt isPassword
            in (Some answer, tr @ [Prompt prompt isPassword (Some answer)])))"

text \<open>\<open>value || await this.promptForInput(prompt, isPassword)\<close>\<close>

definition orPrompt ::
  "('j, 'r) env \<Rightarrow> string option \<Rightarrow> string \<Rightarrow> bool \<Rightarrow> ('j, 'r) event list
    \<Rightarrow> string option \<times> ('j, 'r) event list" where
  "orPrompt E v prompt isPassword tr =
     (case truthy v of
        Some s \<Rightarrow> (Some s, tr)
      | None \<Rightarrow> promptForInput E prompt isPassword tr)"

definition invalidConfig :: error where
  "invalidConfig = Error ''Invalid server configuration: missing url or command/args''"

text \<open>
  \<open>connectToRemoteServer\<close> of index_auth.ts. The result is \<open>None\<close> when the call never
  settles, which happens when a credential prompt never does.
\<close>

definition connectToRemoteServer_auth ::
  "('j, 'r) env \<Rightarrow> 'j client \<Rightarrow> string \<Rightarrow> string option \<Rightarrow> string option \<Rightarrow> string option
    \<Rightarrow> ('j, 'r) event list \<Rightarrow> (error + 'j client) option \<times> ('j, 'r) event list" where
  "connectToRemoteServer_auth E c serverName configPath username password tr =
     (case loadConfig E configPath tr of (cfg, tr1) \<Rightarrow>
        (case lookupServer cfg serverName of
           None \<Rightarrow> (Some (Inl (notFound serverName)), tr1)
         | Some serverConfig \<Rightarrow>
            (let tr2 = tr1 @ [Console (''Connecting to remote server: '' @ serverName)]
             in case truthy (cfg_url serverConfig) of
                  Some url \<Rightarrow>
                    (case orPrompt E username ''GitHub Username: '' False tr2 of
                       (None, tr3) \<Rightarrow> (None, tr3)
                     | (Some githubUsername, tr3) \<Rightarrow>
                    (case orPrompt E password ''GitHub Password/Token: '' True tr3 of
                       (None, tr4) \<Rightarrow> (None, tr4)
                     | (Some githubPassword, tr4) \<Rightarrow>
                    (case connectWithTransport_auth E
                          (c\<lparr>client_transport :=
                               Some \<lparr>command = Some ''npx'', args = [''mcp-remote'', url],
                                     env_vars = Some ((process_env E)
                                       (''GITHUB_USERNAME'' \<mapsto> githubUsername,
                                        ''GITHUB_TOKEN'' \<mapsto> githubPassword))\<rparr>\<rparr>)
                          (tr4 @ [Console (''Using mcp-remote to connect to: '' @ url)]) of
                       (r, tr5) \<Rightarrow> (Some r, tr5))))
                | None \<Rightarrow>
                   (case (truthy (cfg_command serverConfig), cfg_args serverConfig) of
                      (Some cmd, Some as) \<Rightarrow>
                        (case connectWithTransport_auth E
                          (c\<lparr>client_transport :=
                               Some \<lparr>command = Some cmd, args = as, env_vars = None\<rparr>\<rparr>)
                          (tr2 @ [Console (''Command: '' @ cmd @ '' '' @ join '' '' as)]) of
                           (r, tr3) \<Rightarrow> (Some r, tr3))
                    | _ \<Rightarrow> (Some (Inl invalidConfig), tr2)))))"

section \<open>Process entry point (index_auth.ts)\<close>

text \<open>\<open>args.indexOf(flag) > -1 ? args[args.indexOf(flag) + 1] : undefined\<close>\<close>

fun argAfter :: "string \<Rightarrow> string list \<Rightarrow> string option" where
  "argAfter flag [] = None"
| "argAfter flag (a # as) =
     (if a = flag then (case as of [] \<Rightarrow> None | b # _ \<Rightarrow> Some b)
      else argAfter flag as)"

text \<open>
  The body of the \<open>try\<close> in \<open>main\<close>. \<open>argv\<close> is the source's
  \<open>args\<close>, that is \<open>process.argv.slice(2)\<close>;
  \<open>console.log\<close> and \<open>console.error\<close> of a plain string are both \<open>Console\<close> events.
\<close>

definition main_try ::
  "('j, 'r) env \<Rightarrow> 'j client \<Rightarrow> string list \<Rightarrow> string list \<Rightarrow> ('j, 'r) event list
    \<Rightarrow> completion \<times> ('j, 'r) event list" where
  "main_try E c argv lines tr =
     (if argv = [] \<or> hd argv = ''--help'' \<or> hd argv = ''-h''
      then (Normal, tr @ [PrintUsage])
      else if hd argv = ''--local'' \<and> length argv > 1
      then (case connectToLocalServer_auth E c (argv ! 1) tr of
              (Inl e, tr1) \<Rightarrow> (Threw e, tr1)
            | (Inr c', tr1) \<Rightarrow> chatLoop E (client_tools c') lines tr1)
      else if hd argv = ''--remote'' \<and> length argv > 1
      then (case connectToRemoteServer_auth E c (argv ! 1) (argAfter ''--config'' argv)
                   (argAfter ''--username'' argv) (argAfter ''--password'' argv) tr of
              (None, tr1) \<Rightarrow> (Pending, tr1)
            | (Some (Inl e), tr1) \<Rightarrow> (Threw e, tr1)
            | (Some (Inr c'), tr1) \<Rightarrow> chatLoop E (client_tools c') lines tr1)
      else (Normal, tr @ [Console ''Invalid arguments. Use --help for usage information.'']))"

text \<open>
  \<open>main\<close> with its \<open>catch\<close> and \<open>finally\<close>: the events of one run of the
  process, given the command-line arguments and the lines typed at the query prompt.
\<close>

definition main_auth :: "('j, 'r) env \<Rightarrow> string list \<Rightarrow> string list \<Rightarrow> ('j, 'r) event list" where
  "main_auth E argv lines =
     (case main_try E \<lparr>client_transport = None, client_tools = []\<rparr> argv lines [] of
        (Pending, tr) \<Rightarrow> tr
      | (Normal, tr) \<Rightarrow> tr @ [McpClose, Exit 0]
      | (Threw e, tr) \<Rightarrow> tr @ [ConsoleErr ''Error:'' e, McpClose, Exit 0])"

section \<open>Notions used to state the properties\<close>

text \<open>The text pushed for a follow-up response: its first block, if that is a text block.\<close>

definition firstText :: "'j response \<Rightarrow> string list" where
  "firstText f = (case resp_content f of Text t # _ \<Rightarrow> [t] | _ \<Rightarrow> [])"

text \<open>The two messages pushed after a tool call: the request, then its result.\<close>

definition toolMessages :: "string \<Rightarrow> 'j \<Rightarrow> string \<Rightarrow> 'r \<Rightarrow> ('j, 'r) message list" where
  "toolMessages n a i r =
     [Message Assistant (Parts [ToolUsePart n a i]),
      Message User (Parts [ToolResultPart i r])]"

text \<open>Kinds of events.\<close>

fun is_Send :: "('j, 'r) event \<Rightarrow> bool" where
  "is_Send (Send p r) = True"
| "is_Send e = False"

fun is_CallTool :: "('j, 'r) event \<Rightarrow> bool" where
  "is_CallTool (CallTool n a r) = True"
| "is_CallTool e = False"

fun is_Question :: "('j, 'r) event \<Rightarrow> bool" where
  "is_Question (Question p a) = True"
| "is_Question e = False"

fun is_Prompt :: "('j, 'r) event \<Rightarrow> bool" where
  "is_Prompt (Prompt p m a) = True"
| "is_Prompt e = False"

fun is_McpConnect :: "('j, 'r) event \<Rightarrow> bool" where
  "is_McpConnect (McpConnect t r) = True"
| "is_McpConnect e = False"

text \<open>The external calls of a trace, in order, without their payloads and outcomes.\<close>

datatype 'j step = ModelCall | ToolCall string 'j

fun steps :: "('j, 'r) event list \<Rightarrow> 'j step list" where
  "steps [] = []"
| "steps (Send p r # es) = ModelCall # steps es"
| "steps (CallTool n a r # es) = ToolCall n a # steps es"
| "steps (e # es) = steps es"

text \<open>
  What a response with several tool requests asks for: each request, in the order of
  the response, is one tool call followed by one model call.
\<close>

fun plan :: "'j block list \<Rightarrow> 'j step list" where
  "plan [] = []"
| "plan (ToolUse n a i # bs) = ToolCall n a # ModelCall # plan bs"
| "plan (b # bs) = plan bs"

text \<open>The responses that the model calls of a trace returned.\<close>

fun responses :: "('j, 'r) event list \<Rightarrow> 'j response list" where
  "responses [] = []"
| "responses (Send p (Inr f) # es) = f # responses es"
| "responses (e # es) = responses es"

text \<open>
  The output buffer as the specification describes it: a text block gives its value; a
  tool request gives its rendered text and then at most the first text block of its
  follow-up response; the follow-up responses are taken in order.
\<close>

fun expected_output :: "('j, 'r) env \<Rightarrow> 'j block list \<Rightarrow> 'j response list \<Rightarrow> string list" where
  "expected_output E [] fs = []"
| "expected_output E (Text t # bs) fs = t # expected_output E bs fs"
| "expected_output E (OtherBlock ty # bs) fs = expected_output E bs fs"
| "expected_output E (ToolUse n a i # bs) [] = []"
| "expected_output E (ToolUse n a i # bs) (f # fs) =
     callText E n a # firstText f @ expected_output E bs fs"

text \<open>
  The round trip of correlation ids along a trace. \<open>round_trip reqs msgs es\<close> reads the
  events \<open>es\<close> that follow a model call made with transcript \<open>msgs\<close>, where \<open>reqs\<close> are
  the tool-request blocks still to be served, in order. Every tool call must be the
  call of the next request \<open>ToolUse n a i\<close>. When it returned \<open>result\<close>, the next event
  must be a model call whose transcript is the previous transcript followed by exactly
  two messages: the assistant tool-use message with id \<open>i\<close> and the user tool-result
  message with the same id \<open>i\<close> and the content of \<open>result\<close>. When it threw, the trace
  ends. Log lines may stand in between; any other event is refused.
\<close>

fun round_trip ::
  "'j block list \<Rightarrow> ('j, 'r) message list \<Rightarrow> ('j, 'r) event list \<Rightarrow> bool" where
  "round_trip reqs msgs [] = True"
| "round_trip reqs msgs (ev # es) =
     (case ev of
        ConsoleErr l e \<Rightarrow> round_trip reqs msgs es
      | CallTool n' a' r \<Rightarrow>
         (case reqs of
            ToolUse n a i # reqs' \<Rightarrow>
              n' = n \<and> a' = a \<and>
              (case r of
                 Inl e \<Rightarrow> es = []
               | Inr result \<Rightarrow>
                  (case es of
                     Send p x # es' \<Rightarrow>
                       messages p = msgs @
                         [Message Assistant (Parts [ToolUsePart n a i]),
                          Message User (Parts [ToolResultPart i (content result)])] \<and>
                       round_trip reqs' (messages p) es'
                   | _ \<Rightarrow> False))
          | _ \<Rightarrow> False)
      | _ \<Rightarrow> False)"

text \<open>The correlation id of a tool-request message, and of a tool-result message.\<close>

fun request_id :: "('j, 'r) message \<Rightarrow> string option" where
  "request_id (Message Assistant (Parts [ToolUsePart n a i])) = Some i"
| "request_id m = None"

fun result_id :: "('j, 'r) message \<Rightarrow> string option" where
  "result_id (Message User (Parts [ToolResultPart i r])) = Some i"
| "result_id m = None"

text \<open>
  A transcript is correlated when every tool-request message is directly followed by a
  tool-result message with the same id, and there is no other tool-result message.
\<close>

fun correlated :: "('j, 'r) message list \<Rightarrow> bool" where
  "correlated [] = True"
| "correlated [m] = (request_id m = None \<and> result_id m = None)"
| "correlated (m # m' # ms) =
     (case request_id m of
        Some i \<Rightarrow> result_id m' = Some i \<and> correlated ms
      | None \<Rightarrow> result_id m = None \<and> correlated (m' # ms))"

definition request_ids :: "('j, 'r) message list \<Rightarrow> string list" where
  "request_ids ms = List.map_filter request_id ms"

definition result_ids :: "('j, 'r) message list \<Rightarrow> string list" where
  "result_ids ms = List.map_filter result_id ms"

text \<open>The first message of every transcript: the raw query.\<close>

definition seed :: "string \<Rightarrow> ('j, 'r) message list" where
  "seed query = [Message User (Str query)]"

text \<open>
  Equality of two strings up to the case of the letters A to Z, stated without
  \<open>toLowerCase\<close>: the strings have the same length and, position by position, the
  same character or the two cases of one letter.
\<close>

definition same_letter :: "char \<Rightarrow> char \<Rightarrow> bool" where
  "same_letter c d = (c = d \<or> (c, d) \<in> set upper_lower \<or> (d, c) \<in> set upper_lower)"

definition equals_ignoring_case :: "string \<Rightarrow> string \<Rightarrow> bool" where
  "equals_ignoring_case s t = list_all2 same_letter s t"

text \<open>
  The configuration held by the file at a path, when the file exists, can be read and
  parses; and the first such configuration along a list of paths.
\<close>

definition parsed :: "('j, 'r) env \<Rightarrow> string \<Rightarrow> config option" where
  "parsed E p =
     (if existsSync E p
      then (case readFile E p of
              Inl e \<Rightarrow> None
            | Inr s \<Rightarrow> (case JSON_parse E s of Inl e \<Rightarrow> None | Inr cfg \<Rightarrow> Some cfg))
      else None)"

fun first_parsed :: "('j, 'r) env \<Rightarrow> string list \<Rightarrow> config option" where
  "first_parsed E [] = None"
| "first_parsed E (p # ps) =
     (case parsed E p of Some cfg \<Rightarrow> Some cfg | None \<Rightarrow> first_parsed E ps)"

text \<open>
  Events that are neither a model call, a tool call, a prompt at the terminal nor the
  opening of a channel to a tool server.
\<close>

definition quiet :: "('j, 'r) event \<Rightarrow> bool" where
  "quiet e = (\<not> is_Send e \<and> \<not> is_CallTool e \<and> \<not> is_Question e \<and> \<not> is_Prompt e \<and>
              \<not> is_McpConnect e)"

section \<open>A concrete environment\<close>

text \<open>
  A small scripted environment on which the definitions can be run. JSON values and
  tool results are strings. The model answers \<open>hello\<close> with two text blocks, fails on
  \<open>fail\<close>, answers \<open>one\<close> with a text block and one tool request, \<open>void\<close> and
  \<open>broken\<close> with one tool request, and every other query with a text block and two tool requests; its first
  follow-up response has two text blocks, its second has none that is text. For the
  query \<open>void\<close> the follow-up response has no block at all. The tool server knows
  every tool but \<open>broken\<close>.
\<close>

definition demo_send ::
  "(string, string) event list \<Rightarrow> (string, string) payload \<Rightarrow> error + string response" where
  "demo_send tr p =
     (case messages p of
        [Message ro (Str q)] \<Rightarrow>
          (if q = ''hello'' then Inr (Response [Text ''Hi.'', Text ''How can I help?''])
           else if q = ''fail'' then Inl (Error ''timeout'')
           else if q = ''one''
           then Inr (Response [Text ''Looking it up.'', ToolUse ''search'' ''{q:1}'' ''id-1''])
           else if q = ''void''
           then Inr (Response [ToolUse ''search'' ''{q:1}'' ''id-1''])
           else if q = ''broken''
           then Inr (Response [ToolUse ''broken'' ''{}'' ''id-9''])
           else Inr (Response [Text ''Looking it up.'',
                               ToolUse ''search'' ''{q:1}'' ''id-1'',
                               ToolUse ''fetch'' ''{u:2}'' ''id-2'']))
      | ms \<Rightarrow>
          (if hd ms = Message User (Str ''void'') then Inr (Response [])
           else if length ms = 3 then Inr (Response [Text ''found'', Text ''ignored''])
           else Inr (Response [OtherBlock ''image''])))"

definition demo_config :: config where
  "demo_config =
     Config (Some [''docs'' \<mapsto> ServerConfig (Some ''run-tool'') (Some [''--port'', ''8080'']) None,
                   ''both'' \<mapsto> ServerConfig (Some ''run-tool'') (Some [''--port'', ''8080''])
                                 (Some ''https://example.org/mcp''),
                   ''bare'' \<mapsto> ServerConfig None None None])"

definition demo_env :: "(string, string) env" where
  "demo_env =
     \<lparr>bedrock_send = demo_send,
      mcp_callTool =
        (\<lambda>tr n a. if n = ''broken'' then Inl (Error ''unknown tool'')
                   else Inr (CallResult (''result of '' @ n))),
      mcp_connect = (\<lambda>tr t. Inr ()),
      mcp_listTools = (\<lambda>tr. Inr [Tool ''search'' None ''{}'']),
      terminal = (\<lambda>tr p m. ''typed''),
      isTTY = True,
      stringify = (\<lambda>j. j),
      platform = ''linux'',
      execPath = ''/usr/bin/node'',
      process_env = [''HOME'' \<mapsto> ''/home/u''],
      cwd = ''/work'',
      path_join = join ''/'',
      existsSync = (\<lambda>p. p = ''/work/mcp-config.json''),
      readFile = (\<lambda>p. Inr ''{}''),
      JSON_parse = (\<lambda>s. Inr demo_config)\<rparr>"

text \<open>The same environment with no configuration file anywhere.\<close>

definition bare_env :: "(string, string) env" where
  "bare_env = demo_env\<lparr>existsSync := (\<lambda>p. False)\<rparr>"

section \<open>The engine, step by step\<close>

lemma invoke_Inr:
  "bedrock_send E tr (mk_payload msgs tls) = Inr r \<Longrightarrow>
   invokeClaudeModel E msgs tls tr = (Inr r, tr @ [Send (mk_payload msgs tls) (Inr r)])"
  by (simp add: invokeClaudeModel_def Let_def)

lemma invoke_Inl:
  "bedrock_send E tr (mk_payload msgs tls) = Inl e \<Longrightarrow>
   invokeClaudeModel E msgs tls tr =
     (Inl (Error (''Failed to invoke Bedrock model: '' @ message_of e)),
      tr @ [Send (mk_payload msgs tls) (Inl e),
            ConsoleErr ''Error invoking Bedrock model:'' e])"
  by (simp add: invokeClaudeModel_def Let_def)

text \<open>The four ways one tool-request block can go.\<close>

lemma processContent_ToolUse_cases:
  assumes "processContent E tls (ToolUse n a i # rest) msgs ft tr = (res, tr')"
  obtains
    (tool_fails) e where "mcp_callTool E tr n a = Inl e" "res = Inl e"
      "tr' = tr @ [CallTool n a (Inl e)]"
  | (send_fails) result e where "mcp_callTool E tr n a = Inr result"
      "bedrock_send E (tr @ [CallTool n a (Inr result)])
         (mk_payload (msgs @ toolMessages n a i (content result)) tls) = Inl e"
      "res = Inl (Error (''Failed to invoke Bedrock model: '' @ message_of e))"
      "tr' = tr @ [CallTool n a (Inr result),
                   Send (mk_payload (msgs @ toolMessages n a i (content result)) tls) (Inl e),
                   ConsoleErr ''Error invoking Bedrock model:'' e]"
  | (empty_followUp) result f where "mcp_callTool E tr n a = Inr result"
      "bedrock_send E (tr @ [CallTool n a (Inr result)])
         (mk_payload (msgs @ toolMessages n a i (content result)) tls) = Inr f"
      "resp_content f = []"
      "res = Inl (TypeError ''Cannot read properties of undefined (reading 'type')'')"
      "tr' = tr @ [CallTool n a (Inr result),
                   Send (mk_payload (msgs @ toolMessages n a i (content result)) tls) (Inr f)]"
  | (continues) result f where "mcp_callTool E tr n a = Inr result"
      "bedrock_send E (tr @ [CallTool n a (Inr result)])
         (mk_payload (msgs @ toolMessages n a i (content result)) tls) = Inr f"
      "resp_content f \<noteq> []"
      "processContent E tls rest (msgs @ toolMessages n a i (content result))
         (ft @ callText E n a # firstText f)
         (tr @ [CallTool n a (Inr result),
                Send (mk_payload (msgs @ toolMessages n a i (content result)) tls) (Inr f)])
       = (res, tr')"
proof (cases "mcp_callTool E tr n a")
  case (Inl e)
  with assms show ?thesis using tool_fails by (auto simp: Let_def)
next
  case (Inr result)
  let ?m = "msgs @ toolMessages n a i (content result)"
  let ?tr1 = "tr @ [CallTool n a (Inr result)]"
  show ?thesis
  proof (cases "bedrock_send E ?tr1 (mk_payload ?m tls)")
    case (Inl e)
    with assms Inr show ?thesis using send_fails[of result e]
      by (auto simp: Let_def invoke_Inl toolMessages_def)
  next
    case f: (Inr f)
    show ?thesis
    proof (cases "resp_content f")
      case Nil
      with assms Inr f show ?thesis using empty_followUp[of result f]
        by (auto simp: Let_def invoke_Inr toolMessages_def followUpFirst_def)
    next
      case (Cons b bs)
      with assms Inr f show ?thesis using continues[of result f]
        by (cases b) (auto simp: Let_def invoke_Inr toolMessages_def followUpFirst_def firstText_def)
    qed
  qed
qed

lemma steps_append: "steps (xs @ ys) = steps xs @ steps ys"
  by (induction xs rule: steps.induct) simp_all

lemma responses_append: "responses (xs @ ys) = responses xs @ responses ys"
  by (induction xs rule: responses.induct) simp_all

text \<open>Blocks without a tool request only add their text values; nothing is called.\<close>

lemma processContent_no_tool:
  "list_all (\<lambda>b. \<not> is_ToolUse b) bs \<Longrightarrow>
   processContent E tls (bs @ rest) msgs ft tr =
     processContent E tls rest msgs (ft @ map block_text (filter is_Text bs)) tr"
proof (induction bs arbitrary: ft)
  case Nil
  then show ?case by simp
next
  case (Cons b bs)
  then show ?case by (cases b) simp_all
qed

text \<open>
  The calls made for a list of blocks follow the plan of that list; a run that returns
  has made all of them, and its buffer is the expected output.
\<close>

lemma processContent_plan:
  assumes "processContent E tls bs msgs ft tr = (res, tr')"
  shows "\<exists>new. tr' = tr @ new \<and> prefix (steps new) (plan bs) \<and>
           (\<forall>msgs' ft'. res = Inr (msgs', ft') \<longrightarrow>
              new = filter (\<lambda>e. is_Send e \<or> is_CallTool e) new \<and>
              steps new = plan bs \<and>
              length (responses new) = length (filter is_ToolUse bs) \<and>
              ft' = ft @ expected_output E bs (responses new))"
  using assms
proof (induction bs arbitrary: msgs ft tr)
  case Nil
  then show ?case by auto
next
  case (Cons b bs)
  show ?case
  proof (cases b)
    case (Text t)
    with Cons.prems have "processContent E tls bs msgs (ft @ [t]) tr = (res, tr')" by simp
    from Cons.IH[OF this] Text show ?thesis by auto
  next
    case (OtherBlock ty)
    with Cons.prems have "processContent E tls bs msgs ft tr = (res, tr')" by simp
    from Cons.IH[OF this] OtherBlock show ?thesis by auto
  next
    case (ToolUse n a i)
    with Cons.prems have run: "processContent E tls (ToolUse n a i # bs) msgs ft tr = (res, tr')"
      by simp
    from run show ?thesis
    proof (cases rule: processContent_ToolUse_cases)
      case (tool_fails e)
      then show ?thesis using ToolUse by simp
    next
      case (send_fails result e)
      then show ?thesis using ToolUse by simp
    next
      case (empty_followUp result f)
      then show ?thesis using ToolUse by simp
    next
      case (continues result f)
      let ?two = "[CallTool n a (Inr result),
                   Send (mk_payload (msgs @ toolMessages n a i (content result)) tls) (Inr f)]"
      from Cons.IH[OF continues(4)] obtain new where
        new: "tr' = (tr @ ?two) @ new" "prefix (steps new) (plan bs)"
          "\<forall>msgs' ft'. res = Inr (msgs', ft') \<longrightarrow>
              new = filter (\<lambda>e. is_Send e \<or> is_CallTool e) new \<and>
              steps new = plan bs \<and>
              length (responses new) = length (filter is_ToolUse bs) \<and>
              ft' = (ft @ callText E n a # firstText f) @ expected_output E bs (responses new)"
        by blast
      have "tr' = tr @ (?two @ new)" using new(1) by simp
      moreover have "prefix (steps (?two @ new)) (plan (b # bs))"
        using new(2) ToolUse by simp
      moreover have "\<forall>msgs' ft'. res = Inr (msgs', ft') \<longrightarrow>
              ?two @ new = filter (\<lambda>e. is_Send e \<or> is_CallTool e) (?two @ new) \<and>
              steps (?two @ new) = plan (b # bs) \<and>
              length (responses (?two @ new)) = length (filter is_ToolUse (b # bs)) \<and>
              ft' = ft @ expected_output E (b # bs) (responses (?two @ new))"
        using new(3) ToolUse by simp
      ultimately show ?thesis by blast
    qed
  qed
qed

section \<open>C1: text-only responses\<close>

lemma processContent_text:
  "list_all is_Text bs \<Longrightarrow>
   processContent E tls bs msgs ft tr = (Inr (msgs, ft @ map block_text bs), tr)"
proof (induction bs arbitrary: ft)
  case Nil
  then show ?case by simp
next
  case (Cons b bs)
  then obtain t where b: "b = Text t" by (cases b) auto
  with Cons show ?case by simp
qed

text \<open>
  Claim C1. When the model answers the query with a response made of text blocks only,
  \<open>processQuery\<close> returns after that single model call: the only event it adds is
  that call (so no tool is invoked), and the answer is the text values of the blocks,
  in response order, joined by newlines.
\<close>

theorem processQuery_text_only:
  assumes "bedrock_send E tr (mk_payload (seed query) tls) = Inr response"
    and "list_all is_Text (resp_content response)"
  shows "processQuery E tls query tr =
           (Inr (join [CHR 0x0A] (map block_text (resp_content response))),
            tr @ [Send (mk_payload (seed query) tls) (Inr response)])"
  using assms by (simp add: processQuery_def invoke_Inr processContent_text seed_def)

theorem processQuery_text_only_witness:
  "processQuery demo_env [] ''hello'' [] =
     (Inr (''Hi.'' @ [CHR 0x0A] @ ''How can I help?''),
      [Send (mk_payload (seed ''hello'') []) 
         (Inr (Response [Text ''Hi.'', Text ''How can I help?'']))])"
proof -
  have send: "bedrock_send demo_env [] (mk_payload (seed ''hello'') []) =
                Inr (Response [Text ''Hi.'', Text ''How can I help?''])"
    by (simp add: demo_env_def demo_send_def mk_payload_def seed_def)
  have texts: "list_all is_Text (resp_content (Response [Text ''Hi.'', Text ''How can I help?'']))"
    by simp
  show ?thesis
    using processQuery_text_only [OF send texts] by simp
qed

section \<open>C4: several tool requests in one response\<close>


lemmas demo_simps =
  processQuery_def invokeClaudeModel_def Let_def demo_env_def demo_send_def
  mk_payload_def followUpFirst_def callText_def seed_def


section \<open>C2: exactly one tool request\<close>

lemma filter_single:
  assumes "filter P xs = [x]"
  obtains pre post where "xs = pre @ x # post" "list_all (\<lambda>y. \<not> P y) pre"
    "list_all (\<lambda>y. \<not> P y) post"
proof -
  from assms obtain pre post where
    "xs = pre @ x # post" "\<forall>u\<in>set pre. \<not> P u" "P x" "[] = filter P post"
    unfolding filter_eq_Cons_iff by blast
  moreover from this have "\<forall>u\<in>set post. \<not> P u"
    by (metis filter_empty_conv)
  ultimately show ?thesis using that by (auto simp: list_all_iff)
qed

text \<open>
  Claim C2. Let the model answer the query with a response whose only tool-request
  block is \<open>ToolUse n a i\<close>. Then \<open>processQuery\<close> calls the tool exactly once, with
  name \<open>n\<close> and arguments \<open>a\<close>. When that call returns \<open>result\<close>, the events of the
  query are exactly: the first model call, the tool call, and one follow-up model call
  whose transcript is the first transcript with two messages appended, the assistant
  tool-use message with id \<open>i\<close> and then the user tool-result message with the same id
  \<open>i\<close> (plus the error log line when that follow-up call fails). When the tool call
  throws, the query stops there with that error.
\<close>

theorem processQuery_single_tool:
  assumes "bedrock_send E tr (mk_payload (seed query) tls) = Inr response"
    and "filter is_ToolUse (resp_content response) = [ToolUse n a i]"
  shows "case mcp_callTool E (tr @ [Send (mk_payload (seed query) tls) (Inr response)]) n a of
           Inl e \<Rightarrow>
             processQuery E tls query tr =
               (Inl e, tr @ [Send (mk_payload (seed query) tls) (Inr response),
                             CallTool n a (Inl e)])
         | Inr result \<Rightarrow>
             (let transcript = seed query @
                    [Message Assistant (Parts [ToolUsePart n a i]),
                     Message User (Parts [ToolResultPart i (content result)])];
                  followUp = bedrock_send E
                    (tr @ [Send (mk_payload (seed query) tls) (Inr response),
                           CallTool n a (Inr result)])
                    (mk_payload transcript tls)
              in snd (processQuery E tls query tr) =
                   tr @ [Send (mk_payload (seed query) tls) (Inr response),
                         CallTool n a (Inr result),
                         Send (mk_payload transcript tls) followUp] @
                        (case followUp of
                           Inl e \<Rightarrow> [ConsoleErr ''Error invoking Bedrock model:'' e]
                         | Inr f \<Rightarrow> []))"
proof -
  let ?tr1 = "tr @ [Send (mk_payload (seed query) tls) (Inr response)]"
  from assms(2) obtain pre post where
    blocks: "resp_content response = pre @ ToolUse n a i # post"
      and pre: "list_all (\<lambda>b. \<not> is_ToolUse b) pre"
      and post: "list_all (\<lambda>b. \<not> is_ToolUse b) post"
    by (rule filter_single)
  let ?ft = "map block_text (filter is_Text pre)"
  have start: "processContent E tls (resp_content response) (seed query) [] ?tr1 =
                 processContent E tls (ToolUse n a i # post) (seed query) ?ft ?tr1"
    using processContent_no_tool[OF pre, of E tls "ToolUse n a i # post" "seed query" "[]" ?tr1]
    by (simp add: blocks)
  have rest: "\<And>msgs ft t. processContent E tls post msgs ft t =
                (Inr (msgs, ft @ map block_text (filter is_Text post)), t)"
    using processContent_no_tool[OF post, of E tls "[]"] by simp
  obtain r t where pc: "processContent E tls (ToolUse n a i # post) (seed query) ?ft ?tr1 = (r, t)"
    by (cases "processContent E tls (ToolUse n a i # post) (seed query) ?ft ?tr1")
  have pq: "processQuery E tls query tr =
              (case r of Inl e \<Rightarrow> (Inl e, t)
               | Inr (msgs', finalText) \<Rightarrow> (Inr (join [CHR 0x0A] finalText), t))"
    using assms(1) start pc
    by (simp add: processQuery_def invoke_Inr seed_def split: sum.splits)
  from pc show ?thesis
  proof (cases rule: processContent_ToolUse_cases)
    case (tool_fails e)
    then show ?thesis using pq by simp
  next
    case (send_fails result e)
    then show ?thesis using pq by (simp add: toolMessages_def Let_def)
  next
    case (empty_followUp result f)
    then show ?thesis using pq by (simp add: toolMessages_def Let_def)
  next
    case (continues result f)
    then show ?thesis using pq rest by (auto simp add: toolMessages_def Let_def)
  qed
qed

theorem processQuery_single_tool_witness:
  "snd (processQuery demo_env [] ''one'' []) =
     [Send (mk_payload (seed ''one'') [])
        (Inr (Response [Text ''Looking it up.'', ToolUse ''search'' ''{q:1}'' ''id-1''])),
      CallTool ''search'' ''{q:1}'' (Inr (CallResult ''result of search'')),
      Send (mk_payload
              [Message User (Str ''one''),
               Message Assistant (Parts [ToolUsePart ''search'' ''{q:1}'' ''id-1'']),
               Message User (Parts [ToolResultPart ''id-1'' ''result of search''])] [])
        (Inr (Response [Text ''found'', Text ''ignored'']))] \<and>
   processQuery demo_env [] ''broken'' [] =
     (Inl (Error ''unknown tool''),
      [Send (mk_payload (seed ''broken'') []) (Inr (Response [ToolUse ''broken'' ''{}'' ''id-9''])),
       CallTool ''broken'' ''{}'' (Inl (Error ''unknown tool''))])"
proof -
  let ?response = "Response [Text ''Looking it up.'', ToolUse ''search'' ''{q:1}'' ''id-1'']"
  let ?broken = "Response [ToolUse ''broken'' ''{}'' ''id-9'']"
  have send: "bedrock_send demo_env [] (mk_payload (seed ''one'') []) = Inr ?response"
    by (simp add: demo_env_def demo_send_def mk_payload_def seed_def)
  have one: "filter is_ToolUse (resp_content ?response) = [ToolUse ''search'' ''{q:1}'' ''id-1'']"
    by simp
  have send': "bedrock_send demo_env [] (mk_payload (seed ''broken'') []) = Inr ?broken"
    by (simp add: demo_env_def demo_send_def mk_payload_def seed_def)
  have one': "filter is_ToolUse (resp_content ?broken) = [ToolUse ''broken'' ''{}'' ''id-9'']"
    by simp
  have returns: "snd (processQuery demo_env [] ''one'' []) =
     [Send (mk_payload (seed ''one'') []) (Inr ?response),
      CallTool ''search'' ''{q:1}'' (Inr (CallResult ''result of search'')),
      Send (mk_payload
              [Message User (Str ''one''),
               Message Assistant (Parts [ToolUsePart ''search'' ''{q:1}'' ''id-1'']),
               Message User (Parts [ToolResultPart ''id-1'' ''result of search''])] [])
        (Inr (Response [Text ''found'', Text ''ignored'']))]"
    using processQuery_single_tool [OF send one]
    by (simp add: demo_env_def demo_send_def mk_payload_def seed_def Let_def)
  have throws: "processQuery demo_env [] ''broken'' [] =
     (Inl (Error ''unknown tool''),
      [Send (mk_payload (seed ''broken'') []) (Inr ?broken),
       CallTool ''broken'' ''{}'' (Inl (Error ''unknown tool''))])"
    using processQuery_single_tool [OF send' one']
    by (simp add: demo_env_def)
  show ?thesis using returns throws by simp
qed

section \<open>C3: correlation ids\<close>

lemma messages_mk_payload: "messages (mk_payload msgs tls) = msgs"
  by (simp add: mk_payload_def)

lemma correlated_toolMessages:
  "correlated msgs \<Longrightarrow> correlated (msgs @ toolMessages n a i r)"
  by (induction msgs rule: correlated.induct)
     (auto simp: toolMessages_def split: option.splits)

lemma request_ids_toolMessages:
  "request_ids (msgs @ toolMessages n a i r) = request_ids msgs @ [i]"
  by (simp add: request_ids_def toolMessages_def List.map_filter_def)

lemma result_ids_toolMessages:
  "result_ids (msgs @ toolMessages n a i r) = result_ids msgs @ [i]"
  by (simp add: result_ids_def toolMessages_def List.map_filter_def)

text \<open>
  Every transcript sent while a list of blocks is processed is correlated, and the ids
  it has gained are ids of the tool requests of that list, in order.
\<close>

lemma processContent_correlated:
  assumes "processContent E tls bs msgs ft tr = (res, tr')"
    and "correlated msgs"
    and "Send p x \<in> set (drop (length tr) tr')"
  shows "correlated (messages p) \<and>
         (\<exists>ids. prefix ids (map block_id (filter is_ToolUse bs)) \<and>
                request_ids (messages p) = request_ids msgs @ ids \<and>
                result_ids (messages p) = result_ids msgs @ ids)"
  using assms
proof (induction bs arbitrary: msgs ft tr)
  case Nil
  then show ?case by simp
next
  case (Cons b bs)
  show ?case
  proof (cases b)
    case (Text t)
    with Cons.prems have "processContent E tls bs msgs (ft @ [t]) tr = (res, tr')" by simp
    from Cons.IH[OF this Cons.prems(2,3)] Text show ?thesis by simp
  next
    case (OtherBlock ty)
    with Cons.prems have "processContent E tls bs msgs ft tr = (res, tr')" by simp
    from Cons.IH[OF this Cons.prems(2,3)] OtherBlock show ?thesis by simp
  next
    case (ToolUse n a i)
    with Cons.prems have run: "processContent E tls (ToolUse n a i # bs) msgs ft tr = (res, tr')"
      by simp
    from run show ?thesis
    proof (cases rule: processContent_ToolUse_cases)
      case (tool_fails e)
      then show ?thesis using Cons.prems(3) by simp
    next
      case (send_fails result e)
      let ?m = "msgs @ toolMessages n a i (content result)"
      from send_fails Cons.prems(3) have "messages p = ?m"
        by (auto simp: messages_mk_payload)
      moreover have "prefix [i] (map block_id (filter is_ToolUse (b # bs)))"
        using ToolUse by simp
      ultimately show ?thesis
        using Cons.prems(2)
        by (metis correlated_toolMessages request_ids_toolMessages result_ids_toolMessages)
    next
      case (empty_followUp result f)
      let ?m = "msgs @ toolMessages n a i (content result)"
      from empty_followUp Cons.prems(3) have "messages p = ?m"
        by (auto simp: messages_mk_payload)
      moreover have "prefix [i] (map block_id (filter is_ToolUse (b # bs)))"
        using ToolUse by simp
      ultimately show ?thesis
        using Cons.prems(2)
        by (metis correlated_toolMessages request_ids_toolMessages result_ids_toolMessages)
    next
      case (continues result f)
      let ?m = "msgs @ toolMessages n a i (content result)"
      let ?two = "[CallTool n a (Inr result), Send (mk_payload ?m tls) (Inr f)]"
      have here: "prefix [i] (map block_id (filter is_ToolUse (b # bs)))"
        using ToolUse by simp
      from processContent_plan[OF continues(4)] obtain new where
        new: "tr' = (tr @ ?two) @ new" by blast
      from Cons.prems(3) new consider
        (now) "Send p x = Send (mk_payload ?m tls) (Inr f)"
        | (later) "Send p x \<in> set (drop (length (tr @ ?two)) tr')"
        by auto
      then show ?thesis
      proof cases
        case now
        then have "messages p = ?m" by (simp add: messages_mk_payload)
        with here show ?thesis
          using Cons.prems(2)
          by (metis correlated_toolMessages request_ids_toolMessages result_ids_toolMessages)
      next
        case later
        from Cons.IH[OF continues(4) correlated_toolMessages[OF Cons.prems(2)] later]
        obtain ids where ids: "correlated (messages p)"
          "prefix ids (map block_id (filter is_ToolUse bs))"
          "request_ids (messages p) = request_ids ?m @ ids"
          "result_ids (messages p) = result_ids ?m @ ids"
          by blast
        have "prefix (i # ids) (map block_id (filter is_ToolUse (b # bs)))"
          using ids(2) ToolUse by simp
        moreover have "request_ids (messages p) = request_ids msgs @ (i # ids)"
          using ids(3) by (simp add: request_ids_toolMessages)
        moreover have "result_ids (messages p) = result_ids msgs @ (i # ids)"
          using ids(4) by (simp add: result_ids_toolMessages)
        ultimately show ?thesis using ids(1) by blast
      qed
    qed
  qed
qed

text \<open>What \<open>processQuery\<close> does around the loop over the blocks.\<close>

lemma processQuery_unfold:
  obtains
    (first_fails) e where "bedrock_send E tr (mk_payload (seed query) tls) = Inl e"
      "processQuery E tls query tr =
         (Inl (Error (''Failed to invoke Bedrock model: '' @ message_of e)),
          tr @ [Send (mk_payload (seed query) tls) (Inl e),
                ConsoleErr ''Error invoking Bedrock model:'' e])"
  | (answered) response r tr2 where
      "bedrock_send E tr (mk_payload (seed query) tls) = Inr response"
      "processContent E tls (resp_content response) (seed query) []
         (tr @ [Send (mk_payload (seed query) tls) (Inr response)]) = (r, tr2)"
      "processQuery E tls query tr =
         (case r of Inl e \<Rightarrow> (Inl e, tr2)
          | Inr (msgs', finalText) \<Rightarrow> (Inr (join [CHR 0x0A] finalText), tr2))"
proof (cases "bedrock_send E tr (mk_payload (seed query) tls)")
  case (Inl e)
  then show ?thesis using first_fails
    by (simp add: processQuery_def invoke_Inl seed_def)
next
  case (Inr response)
  obtain r tr2 where pc: "processContent E tls (resp_content response) (seed query) []
         (tr @ [Send (mk_payload (seed query) tls) (Inr response)]) = (r, tr2)"
    by (cases "processContent E tls (resp_content response) (seed query) []
         (tr @ [Send (mk_payload (seed query) tls) (Inr response)])")
  show ?thesis
    using answered[OF Inr pc] Inr pc
    by (simp add: processQuery_def invoke_Inr seed_def split: sum.splits)
qed

lemma round_trip_returned:
  "round_trip (ToolUse n a i # reqs) msgs (CallTool n a (Inr result) # Send p x # es) =
     (messages p = msgs @ toolMessages n a i (content result) \<and>
      round_trip reqs (messages p) es)"
  by (simp add: toolMessages_def)

text \<open>Read at one tool call that returned, \<open>round_trip\<close> says this.\<close>

lemma round_trip_invocation:
  assumes "round_trip reqs msgs es"
    and "es = pre @ CallTool n a (Inr result) # post"
  shows "\<exists>i p x before post'.
           post = Send p x # post' \<and>
           messages p = before @ toolMessages n a i (content result) \<and>
           ToolUse n a i \<in> set reqs"
  using assms
proof (induction "length es" arbitrary: reqs msgs es pre rule: less_induct)
  case less
  show ?case
  proof (cases pre)
    case Nil
    with less.prems have rt: "round_trip reqs msgs (CallTool n a (Inr result) # post)" by simp
    then obtain i reqs' where reqs: "reqs = ToolUse n a i # reqs'"
      by (auto split: list.splits block.splits)
    show ?thesis
    proof (cases post)
      case Nil
      with rt reqs show ?thesis by simp
    next
      case (Cons ev' es')
      with rt reqs obtain p x where "ev' = Send p x"
        "messages p = msgs @ toolMessages n a i (content result)"
        by (cases ev') (simp_all add: toolMessages_def)
      with Cons reqs show ?thesis by auto
    qed
  next
    case (Cons ev pre1)
    with less.prems(2) have es: "es = ev # (pre1 @ CallTool n a (Inr result) # post)" by simp
    show ?thesis
    proof (cases ev)
      case (ConsoleErr l e)
      with less.prems(1) es have rt: "round_trip reqs msgs (pre1 @ CallTool n a (Inr result) # post)"
        by simp
      from less.hyps[OF _ rt refl] es show ?thesis by simp
    next
      case (CallTool n0 a0 r0)
      with less.prems(1) es obtain i0 reqs' where reqs: "reqs = ToolUse n0 a0 i0 # reqs'"
        by (auto split: list.splits block.splits)
      show ?thesis
      proof (cases r0)
        case (Inl e)
        with less.prems(1) es CallTool reqs show ?thesis by simp
      next
        case (Inr result0)
        with less.prems(1) es CallTool reqs obtain p0 x0 es' where
          tail: "pre1 @ CallTool n a (Inr result) # post = Send p0 x0 # es'"
          and rt: "round_trip reqs' (messages p0) es'"
          by (auto split: list.splits event.splits)
        from tail obtain pre2 where pre2: "pre1 = Send p0 x0 # pre2"
          "es' = pre2 @ CallTool n a (Inr result) # post"
          by (cases pre1) auto
        have "length es' < length es" using es tail by simp
        from less.hyps[OF this rt pre2(2)] reqs show ?thesis by auto
      qed
    qed (use less.prems(1) es in simp_all)
  qed
qed

text \<open>The events of the loop over the blocks make the round trip for its tool requests.\<close>

lemma processContent_round_trip:
  assumes "processContent E tls bs msgs ft tr = (res, tr')"
  shows "\<exists>new. tr' = tr @ new \<and> round_trip (filter is_ToolUse bs) msgs new"
  using assms
proof (induction bs arbitrary: msgs ft tr)
  case Nil
  then show ?case by simp
next
  case (Cons b bs)
  show ?case
  proof (cases b)
    case (Text t)
    with Cons.prems have "processContent E tls bs msgs (ft @ [t]) tr = (res, tr')" by simp
    from Cons.IH[OF this] Text show ?thesis by simp
  next
    case (OtherBlock ty)
    with Cons.prems have "processContent E tls bs msgs ft tr = (res, tr')" by simp
    from Cons.IH[OF this] OtherBlock show ?thesis by simp
  next
    case (ToolUse n a i)
    with Cons.prems have run: "processContent E tls (ToolUse n a i # bs) msgs ft tr = (res, tr')"
      by simp
    from run show ?thesis
    proof (cases rule: processContent_ToolUse_cases)
      case (tool_fails e)
      then show ?thesis using ToolUse by simp
    next
      case (send_fails result e)
      then show ?thesis using ToolUse by (simp add: toolMessages_def messages_mk_payload)
    next
      case (empty_followUp result f)
      then show ?thesis using ToolUse by (simp add: toolMessages_def messages_mk_payload)
    next
      case (continues result f)
      let ?m = "msgs @ toolMessages n a i (content result)"
      let ?two = "[CallTool n a (Inr result), Send (mk_payload ?m tls) (Inr f)]"
      from Cons.IH[OF continues(4)] obtain new where
        new: "tr' = (tr @ ?two) @ new" "round_trip (filter is_ToolUse bs) ?m new"
        by blast
      have "tr' = tr @ (?two @ new)" using new(1) by simp
      moreover have "round_trip (filter is_ToolUse (b # bs)) msgs (?two @ new)"
        using new(2) ToolUse by (simp add: toolMessages_def messages_mk_payload)
      ultimately show ?thesis by blast
    qed
  qed
qed

text \<open>
  Claim C3. Let the model answer the query with \<open>response\<close>. The events that follow
  make the round trip for the tool requests of \<open>response\<close>, in order. In particular,
  for every tool invocation of the run that returned a result: the next event is a
  model call whose transcript ends with exactly the assistant tool-use message for
  that call, carrying the id \<open>i\<close> of a tool-request block \<open>ToolUse n a i\<close> of \<open>response\<close>,
  and then the user tool-result message with the same id \<open>i\<close> and the content of that
  result. Every transcript sent is correlated: each tool-use message is directly
  followed by a tool-result message with the same id, and there is no other
  tool-result message.
\<close>

theorem correlation_id_round_trip:
  assumes "bedrock_send E tr (mk_payload (seed query) tls) = Inr response"
    and "processQuery E tls query tr = (res, tr')"
  shows "\<exists>new. tr' = tr @ Send (mk_payload (seed query) tls) (Inr response) # new \<and>
           round_trip (filter is_ToolUse (resp_content response)) (seed query) new \<and>
           (\<forall>pre n a result post. new = pre @ CallTool n a (Inr result) # post \<longrightarrow>
              (\<exists>i p x before post'.
                 post = Send p x # post' \<and>
                 messages p = before @
                   [Message Assistant (Parts [ToolUsePart n a i]),
                    Message User (Parts [ToolResultPart i (content result)])] \<and>
                 ToolUse n a i \<in> set (resp_content response))) \<and>
           (\<forall>p x. Send p x \<in> set new \<longrightarrow>
              correlated (messages p) \<and> result_ids (messages p) = request_ids (messages p))"
proof -
  let ?tr1 = "tr @ [Send (mk_payload (seed query) tls) (Inr response)]"
  obtain r tr2 where pc:
    "processContent E tls (resp_content response) (seed query) [] ?tr1 = (r, tr2)"
    by (cases "processContent E tls (resp_content response) (seed query) [] ?tr1")
  have "processQuery E tls query tr =
          (case r of Inl e \<Rightarrow> (Inl e, tr2)
           | Inr (msgs', finalText) \<Rightarrow> (Inr (join [CHR 0x0A] finalText), tr2))"
    using assms(1) pc by (simp add: processQuery_def invoke_Inr seed_def split: sum.splits)
  with assms(2) have tr': "tr' = tr2" by (auto split: sum.splits)
  from processContent_round_trip[OF pc] obtain new where
    new: "tr2 = ?tr1 @ new"
      "round_trip (filter is_ToolUse (resp_content response)) (seed query) new"
    by blast
  have seed_ok: "correlated (seed query :: ('a, 'b) message list)"
    "request_ids (seed query :: ('a, 'b) message list) = []"
    "result_ids (seed query :: ('a, 'b) message list) = []"
    by (simp_all add: seed_def request_ids_def result_ids_def List.map_filter_def)
  have each: "\<exists>i p x before post'.
                 post = Send p x # post' \<and>
                 messages p = before @
                   [Message Assistant (Parts [ToolUsePart n a i]),
                    Message User (Parts [ToolResultPart i (content result)])] \<and>
                 ToolUse n a i \<in> set (resp_content response)"
    if "new = pre @ CallTool n a (Inr result) # post" for pre n a result post
    using round_trip_invocation[OF new(2) that] by (auto simp: toolMessages_def)
  have sent: "correlated (messages p) \<and> result_ids (messages p) = request_ids (messages p)"
    if "Send p x \<in> set new" for p x
  proof -
    from that new(1) have "Send p x \<in> set (drop (length ?tr1) tr2)" by simp
    from processContent_correlated[OF pc seed_ok(1) this] show ?thesis
      using seed_ok(2,3) by auto
  qed
  have "tr' = tr @ Send (mk_payload (seed query) tls) (Inr response) # new"
    using tr' new(1) by simp
  with new(2) each sent show ?thesis by blast
qed

theorem correlation_id_round_trip_witness:
  "round_trip
     [ToolUse ''search'' ''{q:1}'' ''id-1'', ToolUse ''fetch'' ''{u:2}'' ''id-2'']
     (seed ''weather'')
     (tl (snd (processQuery demo_env [] ''weather'' []))) \<and>
   (\<exists>i p x before post'.
      drop 3 (snd (processQuery demo_env [] ''weather'' [])) =
        CallTool ''fetch'' ''{u:2}'' (Inr (CallResult ''result of fetch'')) # Send p x # post' \<and>
      messages p = before @
        [Message Assistant (Parts [ToolUsePart ''fetch'' ''{u:2}'' i]),
         Message User (Parts [ToolResultPart i ''result of fetch''])] \<and>
      i = ''id-2'') \<and>
   (case last (snd (processQuery demo_env [] ''weather'' [])) of
      Send p x \<Rightarrow>
        correlated (messages p) \<and> result_ids (messages p) = request_ids (messages p)
    | _ \<Rightarrow> False)"
proof -
  let ?response = "Response [Text ''Looking it up.'',
                     ToolUse ''search'' ''{q:1}'' ''id-1'',
                     ToolUse ''fetch'' ''{u:2}'' ''id-2'']"
  let ?m3 = "[Message User (Str ''weather''),
      Message Assistant (Parts [ToolUsePart ''search'' ''{q:1}'' ''id-1'']),
      Message User (Parts [ToolResultPart ''id-1'' ''result of search''])]"
  let ?m5 = "?m3 @
     [Message Assistant (Parts [ToolUsePart ''fetch'' ''{u:2}'' ''id-2'']),
      Message User (Parts [ToolResultPart ''id-2'' ''result of fetch''])]"
  let ?pre = "[CallTool ''search'' ''{q:1}'' (Inr (CallResult ''result of search'')),
               Send (mk_payload ?m3 []) (Inr (Response [Text ''found'', Text ''ignored'']))]"
  let ?post = "[Send (mk_payload ?m5 []) (Inr (Response [OtherBlock ''image'']))]"
  let ?new = "?pre @ CallTool ''fetch'' ''{u:2}'' (Inr (CallResult ''result of fetch'')) # ?post"
  have send: "bedrock_send demo_env [] (mk_payload (seed ''weather'') []) = Inr ?response"
    by (simp add: demo_env_def demo_send_def mk_payload_def seed_def)
  obtain res tr' where run: "processQuery demo_env [] ''weather'' [] = (res, tr')"
    by (cases "processQuery demo_env [] ''weather'' []")
  have trace: "tr' = Send (mk_payload (seed ''weather'') []) (Inr ?response) # ?new"
    using run by (simp add: demo_simps)
  from correlation_id_round_trip [OF send run] obtain new where
    new: "tr' = [] @ Send (mk_payload (seed ''weather'') []) (Inr ?response) # new"
      "round_trip (filter is_ToolUse (resp_content ?response)) (seed ''weather'') new"
      "\<forall>pre n a result post. new = pre @ CallTool n a (Inr result) # post \<longrightarrow>
              (\<exists>i p x before post'.
                 post = Send p x # post' \<and>
                 messages p = before @
                   [Message Assistant (Parts [ToolUsePart n a i]),
                    Message User (Parts [ToolResultPart i (content result)])] \<and>
                 ToolUse n a i \<in> set (resp_content ?response))"
      "\<forall>p x. Send p x \<in> set new \<longrightarrow>
              correlated (messages p) \<and> result_ids (messages p) = request_ids (messages p)"
    by blast
  from new(1) trace have eq: "new = ?new" by simp
  have a: "round_trip
     [ToolUse ''search'' ''{q:1}'' ''id-1'', ToolUse ''fetch'' ''{u:2}'' ''id-2'']
     (seed ''weather'') (tl (snd (processQuery demo_env [] ''weather'' [])))"
    using new(2) new(1) run by simp
  from new(3) [rule_format, OF eq] obtain i p x before post' where
    found: "?post = Send p x # post'"
      "messages p = before @
         [Message Assistant (Parts [ToolUsePart ''fetch'' ''{u:2}'' i]),
          Message User (Parts [ToolResultPart i (content (CallResult ''result of fetch''))])]"
      "ToolUse ''fetch'' ''{u:2}'' i \<in> set (resp_content ?response)"
    by blast
  from found(3) have i: "i = ''id-2''" by simp
  have b: "\<exists>i p x before post'.
      drop 3 (snd (processQuery demo_env [] ''weather'' [])) =
        CallTool ''fetch'' ''{u:2}'' (Inr (CallResult ''result of fetch'')) # Send p x # post' \<and>
      messages p = before @
        [Message Assistant (Parts [ToolUsePart ''fetch'' ''{u:2}'' i]),
         Message User (Parts [ToolResultPart i ''result of fetch''])] \<and>
      i = ''id-2''"
    using found(1,2) i run trace by (intro exI[of _ i] exI[of _ p] exI[of _ x]
        exI[of _ before] exI[of _ post']) simp
  have "Send (mk_payload ?m5 []) (Inr (Response [OtherBlock ''image''])) \<in> set new"
    unfolding eq by simp
  with new(4) have "correlated (messages (mk_payload ?m5 [])) \<and>
      result_ids (messages (mk_payload ?m5 [])) = request_ids (messages (mk_payload ?m5 []))"
    by blast
  moreover have "last (snd (processQuery demo_env [] ''weather'' [])) =
      Send (mk_payload ?m5 []) (Inr (Response [OtherBlock ''image'']))"
    using run trace by simp
  ultimately have c: "case last (snd (processQuery demo_env [] ''weather'' [])) of
      Send p x \<Rightarrow>
        correlated (messages p) \<and> result_ids (messages p) = request_ids (messages p)
    | _ \<Rightarrow> False"
    by simp
  show ?thesis using a b c by blast
qed

section \<open>C10: the first block of a follow-up response\<close>

text \<open>A list of blocks is processed to the end only if every follow-up response has a block.\<close>

lemma processContent_returns_nonempty:
  assumes "processContent E tls bs msgs ft tr = (Inr out, tr')"
    and "Send p (Inr g) \<in> set (drop (length tr) tr')"
  shows "resp_content g \<noteq> []"
  using assms
proof (induction bs arbitrary: msgs ft tr)
  case Nil
  then show ?case by simp
next
  case (Cons b bs)
  show ?case
  proof (cases b)
    case (Text t)
    with Cons.prems have "processContent E tls bs msgs (ft @ [t]) tr = (Inr out, tr')" by simp
    from Cons.IH[OF this Cons.prems(2)] show ?thesis .
  next
    case (OtherBlock ty)
    with Cons.prems have "processContent E tls bs msgs ft tr = (Inr out, tr')" by simp
    from Cons.IH[OF this Cons.prems(2)] show ?thesis .
  next
    case (ToolUse n a i)
    with Cons.prems have
      run: "processContent E tls (ToolUse n a i # bs) msgs ft tr = (Inr out, tr')"
      by simp
    from run show ?thesis
    proof (cases rule: processContent_ToolUse_cases)
      case (continues result f)
      let ?m = "msgs @ toolMessages n a i (content result)"
      let ?two = "[CallTool n a (Inr result), Send (mk_payload ?m tls) (Inr f)]"
      from processContent_plan[OF continues(4)] obtain new where
        new: "tr' = (tr @ ?two) @ new" by blast
      from Cons.prems(2) new consider
        (now) "g = f" | (later) "Send p (Inr g) \<in> set (drop (length (tr @ ?two)) tr')"
        by auto
      then show ?thesis
      proof cases
        case now
        then show ?thesis using continues(3) by simp
      next
        case later
        from Cons.IH[OF continues(4) later] show ?thesis .
      qed
    qed simp_all
  qed
qed

text \<open>
  Claim C10. Reading the first block of a follow-up response is defined exactly when
  the response has a block: on a non-empty content list it yields the first block, on
  an empty one it throws a \<open>TypeError\<close>. There are such inputs: when the first
  response starts with a tool request, the tool returns and the follow-up response is
  empty, \<open>processQuery\<close> ends with that \<open>TypeError\<close>. So whenever \<open>processQuery\<close>
  returns an answer, every follow-up response it received had at least one block.
\<close>

theorem followUp_needs_a_block:
  "(resp_content f \<noteq> [] \<longrightarrow> followUpFirst f = Inr (hd (resp_content f))) \<and>
   (resp_content f = [] \<longrightarrow>
      followUpFirst f = Inl (TypeError ''Cannot read properties of undefined (reading 'type')'')) \<and>
   (bedrock_send E tr (mk_payload (seed query) tls) = Inr (Response (ToolUse n a i # rest)) \<and>
    mcp_callTool E (tr @ [Send (mk_payload (seed query) tls)
                            (Inr (Response (ToolUse n a i # rest)))]) n a = Inr result \<and>
    bedrock_send E
      (tr @ [Send (mk_payload (seed query) tls) (Inr (Response (ToolUse n a i # rest))),
             CallTool n a (Inr result)])
      (mk_payload (seed query @ toolMessages n a i (content result)) tls) = Inr (Response [])
    \<longrightarrow> fst (processQuery E tls query tr) =
          Inl (TypeError ''Cannot read properties of undefined (reading 'type')'')) \<and>
   (processQuery E tls query tr = (Inr answer, tr') \<longrightarrow>
      (\<forall>p g. Send p (Inr g) \<in> set (drop (Suc (length tr)) tr') \<longrightarrow> resp_content g \<noteq> []))"
proof (intro conjI impI allI)
  assume "resp_content f \<noteq> []"
  then show "followUpFirst f = Inr (hd (resp_content f))"
    by (cases "resp_content f") (simp_all add: followUpFirst_def)
next
  assume "resp_content f = []"
  then show "followUpFirst f =
               Inl (TypeError ''Cannot read properties of undefined (reading 'type')'')"
    by (simp add: followUpFirst_def)
next
  let ?response = "Response (ToolUse n a i # rest)"
  assume a: "bedrock_send E tr (mk_payload (seed query) tls) = Inr ?response \<and>
    mcp_callTool E (tr @ [Send (mk_payload (seed query) tls) (Inr ?response)]) n a = Inr result \<and>
    bedrock_send E
      (tr @ [Send (mk_payload (seed query) tls) (Inr ?response), CallTool n a (Inr result)])
      (mk_payload (seed query @ toolMessages n a i (content result)) tls) = Inr (Response [])"
  then show "fst (processQuery E tls query tr) =
          Inl (TypeError ''Cannot read properties of undefined (reading 'type')'')"
    by (simp add: processQuery_def invoke_Inr seed_def toolMessages_def Let_def
        followUpFirst_def)
next
  fix p g
  assume run: "processQuery E tls query tr = (Inr answer, tr')"
    and sent: "Send p (Inr g) \<in> set (drop (Suc (length tr)) tr')"
  show "resp_content g \<noteq> []"
  proof (cases rule: processQuery_unfold[of E tr query tls])
    case (first_fails e)
    with run show ?thesis by simp
  next
    case (answered response r tr2)
    from answered(3) run obtain out where r: "r = Inr out" and tr': "tr' = tr2"
      by (auto split: sum.splits)
    from processContent_plan[OF answered(2)] obtain new where
      new: "tr2 = (tr @ [Send (mk_payload (seed query) tls) (Inr response)]) @ new" by blast
    have "Send p (Inr g) \<in>
            set (drop (length (tr @ [Send (mk_payload (seed query) tls) (Inr response)])) tr2)"
      using sent tr' new by simp
    from processContent_returns_nonempty[OF answered(2)[unfolded r] this] show ?thesis .
  qed
qed

theorem followUp_needs_a_block_witness:
  "followUpFirst (Response [Text ''found'', Text ''ignored''] :: string response) = Inr (Text ''found'') \<and>
   followUpFirst (Response ([] :: string block list)) =
     Inl (TypeError ''Cannot read properties of undefined (reading 'type')'') \<and>
   fst (processQuery demo_env [] ''void'' []) =
     Inl (TypeError ''Cannot read properties of undefined (reading 'type')'') \<and>
   resp_content (Response [Text ''found'', Text ''ignored''] :: string response) \<noteq> []"
proof -
  let ?f = "Response [Text ''found'', Text ''ignored''] :: string response"
  let ?one = "[Message User (Str ''one''),
               Message Assistant (Parts [ToolUsePart ''search'' ''{q:1}'' ''id-1'']),
               Message User (Parts [ToolResultPart ''id-1'' ''result of search''])]"
  obtain answer tr' where run: "processQuery demo_env [] ''one'' [] = (Inr answer, tr')"
    by (simp add: demo_simps)
  have sent: "Send (mk_payload ?one []) (Inr ?f) \<in> set (drop (Suc (length [])) tr')"
    using run by (auto simp add: demo_simps)
  note returned = followUp_needs_a_block [of ?f demo_env "[]" "''one''" "[]" "''search''"
      "''{q:1}''" "''id-1''" "[]" "CallResult ''result of search''" answer tr']
  note thrown = followUp_needs_a_block [of "Response ([] :: string block list)" demo_env "[]"
      "''void''" "[]" "''search''" "''{q:1}''" "''id-1''" "[]" "CallResult ''result of search''"]
  have a: "followUpFirst ?f = Inr (Text ''found'')"
    using returned [THEN conjunct1] by simp
  have b: "resp_content ?f \<noteq> []"
    using returned [THEN conjunct2, THEN conjunct2, THEN conjunct2, rule_format, OF run sent] .
  have c: "followUpFirst (Response ([] :: string block list)) =
     Inl (TypeError ''Cannot read properties of undefined (reading 'type')'')"
    using thrown [THEN conjunct2, THEN conjunct1] by simp
  have d: "fst (processQuery demo_env [] ''void'' []) =
     Inl (TypeError ''Cannot read properties of undefined (reading 'type')'')"
    using thrown [THEN conjunct2, THEN conjunct2, THEN conjunct1]
    by (simp add: demo_env_def demo_send_def mk_payload_def seed_def toolMessages_def)
  show ?thesis using a b c d by simp
qed

section \<open>C9: the word that ends the loop\<close>

lemma lower_char_eq_iff:
  "lower_char c = CHR ''q'' \<longleftrightarrow> same_letter c CHR ''q''"
  "lower_char c = CHR ''u'' \<longleftrightarrow> same_letter c CHR ''u''"
  "lower_char c = CHR ''i'' \<longleftrightarrow> same_letter c CHR ''i''"
  "lower_char c = CHR ''t'' \<longleftrightarrow> same_letter c CHR ''t''"
  by (auto simp: lower_char_def same_letter_def upper_lower_def split: if_splits)

lemma toLowerCase_quit:
  "toLowerCase s = ''quit'' \<longleftrightarrow> equals_ignoring_case s ''quit''"
proof -
  have "toLowerCase s = ''quit'' \<longleftrightarrow>
          (\<exists>a b c d. s = [a, b, c, d] \<and> lower_char a = CHR ''q'' \<and> lower_char b = CHR ''u'' \<and>
             lower_char c = CHR ''i'' \<and> lower_char d = CHR ''t'')"
    by (auto simp: toLowerCase_def map_eq_Cons_conv)
  also have "\<dots> \<longleftrightarrow> equals_ignoring_case s ''quit''"
    by (auto simp: equals_ignoring_case_def lower_char_eq_iff list_all2_Cons2)
  finally show ?thesis .
qed

text \<open>
  Claim C9. A line equal to \<open>quit\<close> up to letter case ends the loop: the only event
  is the prompt that read it, so the engine is not invoked for it and no later line is
  read. Every other line is passed to \<open>processQuery\<close> as it is; when that returns an
  answer, the answer is printed after a newline and the loop goes on with the next
  line.
\<close>

theorem quit_ends_the_loop:
  "(equals_ignoring_case message ''quit'' \<longrightarrow>
      chatLoop_while E tls (message # rest) tr =
        (Normal, tr @ [Question query_prompt (Some message)])) \<and>
   (\<not> equals_ignoring_case message ''quit'' \<longrightarrow>
      chatLoop_while E tls (message # rest) tr =
        (case processQuery E tls message (tr @ [Question query_prompt (Some message)]) of
           (Inl e, tr2) \<Rightarrow> (Threw e, tr2)
         | (Inr response, tr2) \<Rightarrow>
             chatLoop_while E tls rest (tr2 @ [Console (CHR 0x0A # response)])))"
  by (simp add: toLowerCase_quit Let_def)

theorem quit_ends_the_loop_witness:
  "chatLoop_while demo_env [] [''QuIt'', ''hello''] [] =
     (Normal, [Question query_prompt (Some ''QuIt'')]) \<and>
   chatLoop_while demo_env [] [''hello'', ''quit''] [] =
     (Normal,
      [Question query_prompt (Some ''hello''),
       Send (mk_payload (seed ''hello'') [])
         (Inr (Response [Text ''Hi.'', Text ''How can I help?''])),
       Console (CHR 0x0A # ''Hi.'' @ [CHR 0x0A] @ ''How can I help?''),
       Question query_prompt (Some ''quit'')])"
proof -
  have q1: "equals_ignoring_case ''QuIt'' ''quit''"
    by (simp add: equals_ignoring_case_def same_letter_def upper_lower_def)
  have q2: "\<not> equals_ignoring_case ''hello'' ''quit''"
    by (simp add: equals_ignoring_case_def same_letter_def upper_lower_def)
  have q3: "equals_ignoring_case ''quit'' ''quit''"
    by (simp add: equals_ignoring_case_def same_letter_def upper_lower_def)
  have a: "chatLoop_while demo_env [] [''QuIt'', ''hello''] [] =
     (Normal, [Question query_prompt (Some ''QuIt'')])"
    using quit_ends_the_loop [of "''QuIt''" demo_env "[]" "[''hello'']" "[]"] q1
    by (simp del: chatLoop_while.simps)
  have b: "chatLoop_while demo_env [] [''quit''] tr =
     (Normal, tr @ [Question query_prompt (Some ''quit'')])" for tr
    using quit_ends_the_loop [of "''quit''" demo_env "[]" "[]" tr] q3
    by (simp del: chatLoop_while.simps)
  have pq: "processQuery demo_env [] ''hello'' ([] @ [Question query_prompt (Some ''hello'')]) =
     (Inr (''Hi.'' @ [CHR 0x0A] @ ''How can I help?''),
      [Question query_prompt (Some ''hello''),
       Send (mk_payload (seed ''hello'') [])
         (Inr (Response [Text ''Hi.'', Text ''How can I help?'']))])"
    by (simp add: demo_simps)
  have step: "chatLoop_while demo_env [] (''hello'' # [''quit'']) [] =
     (case processQuery demo_env [] ''hello'' ([] @ [Question query_prompt (Some ''hello'')]) of
        (Inl e, tr2) \<Rightarrow> (Threw e, tr2)
      | (Inr response, tr2) \<Rightarrow>
          chatLoop_while demo_env [] [''quit''] (tr2 @ [Console (CHR 0x0A # response)]))"
    using quit_ends_the_loop [of "''hello''" demo_env "[]" "[''quit'']" "[]"] q2 by blast
  have c: "chatLoop_while demo_env [] [''hello'', ''quit''] [] =
     (Normal,
      [Question query_prompt (Some ''hello''),
       Send (mk_payload (seed ''hello'') [])
         (Inr (Response [Text ''Hi.'', Text ''How can I help?''])),
       Console (CHR 0x0A # ''Hi.'' @ [CHR 0x0A] @ ''How can I help?''),
       Question query_prompt (Some ''quit'')])"
    unfolding step pq by (simp add: b del: chatLoop_while.simps)
  show ?thesis using a c by simp
qed

section \<open>C5: a gateway failure inside the loop\<close>

text \<open>A failed model call is the last call of the loop over the blocks.\<close>

lemma processContent_gateway_failure:
  assumes "processContent E tls bs msgs ft tr = (res, tr')"
    and "Send p (Inl x) \<in> set (drop (length tr) tr')"
  shows "res = Inl (Error (''Failed to invoke Bedrock model: '' @ message_of x)) \<and>
         (\<exists>pre. tr' = tr @ pre @
                   [Send p (Inl x), ConsoleErr ''Error invoking Bedrock model:'' x])"
  using assms
proof (induction bs arbitrary: msgs ft tr)
  case Nil
  then show ?case by simp
next
  case (Cons b bs)
  show ?case
  proof (cases b)
    case (Text t)
    with Cons.prems have "processContent E tls bs msgs (ft @ [t]) tr = (res, tr')" by simp
    from Cons.IH[OF this Cons.prems(2)] show ?thesis .
  next
    case (OtherBlock ty)
    with Cons.prems have "processContent E tls bs msgs ft tr = (res, tr')" by simp
    from Cons.IH[OF this Cons.prems(2)] show ?thesis .
  next
    case (ToolUse n a i)
    with Cons.prems have run: "processContent E tls (ToolUse n a i # bs) msgs ft tr = (res, tr')"
      by simp
    from run show ?thesis
    proof (cases rule: processContent_ToolUse_cases)
      case (tool_fails e)
      then show ?thesis using Cons.prems(2) by simp
    next
      case (send_fails result e)
      with Cons.prems(2) have "p = mk_payload (msgs @ toolMessages n a i (content result)) tls"
        "x = e" by auto
      with send_fails show ?thesis by simp
    next
      case (empty_followUp result f)
      then show ?thesis using Cons.prems(2) by simp
    next
      case (continues result f)
      let ?two = "[CallTool n a (Inr result),
                   Send (mk_payload (msgs @ toolMessages n a i (content result)) tls) (Inr f)]"
      from processContent_plan[OF continues(4)] obtain new where
        new: "tr' = (tr @ ?two) @ new" by blast
      with Cons.prems(2) have "Send p (Inl x) \<in> set (drop (length (tr @ ?two)) tr')"
        by auto
      from Cons.IH[OF continues(4) this] obtain pre where
        "res = Inl (Error (''Failed to invoke Bedrock model: '' @ message_of x))"
        "tr' = (tr @ ?two) @ pre @
                 [Send p (Inl x), ConsoleErr ''Error invoking Bedrock model:'' x]"
        by blast
      then show ?thesis by (intro conjI exI[of _ "?two @ pre"]) simp_all
    qed
  qed
qed

lemma processQuery_extends:
  assumes "processQuery E tls query tr = (res, tr')"
  shows "\<exists>new. tr' = tr @ new"
proof (cases rule: processQuery_unfold[of E tr query tls])
  case (first_fails e)
  with assms show ?thesis by auto
next
  case (answered response r tr2)
  from processContent_plan[OF answered(2)] obtain new where
    "tr2 = (tr @ [Send (mk_payload (seed query) tls) (Inr response)]) @ new" by blast
  moreover have "tr' = tr2" using answered(3) assms by (auto split: sum.splits)
  ultimately show ?thesis by simp
qed

lemma processQuery_gateway_failure:
  assumes "processQuery E tls query tr = (res, tr')"
    and "Send p (Inl x) \<in> set (drop (length tr) tr')"
  shows "res = Inl (Error (''Failed to invoke Bedrock model: '' @ message_of x)) \<and>
         (\<exists>pre. tr' = tr @ pre @
                   [Send p (Inl x), ConsoleErr ''Error invoking Bedrock model:'' x])"
proof (cases rule: processQuery_unfold[of E tr query tls])
  case (first_fails e)
  with assms have "p = mk_payload (seed query) tls" "x = e" by auto
  with first_fails assms(1) show ?thesis by (intro conjI exI[of _ "[]"]) simp_all
next
  case (answered response r tr2)
  let ?first = "Send (mk_payload (seed query) tls) (Inr response)"
  have eq: "res = (case r of Inl e \<Rightarrow> Inl e
                   | Inr (msgs', finalText) \<Rightarrow> Inr (join [CHR 0x0A] finalText))" "tr' = tr2"
    using answered(3) assms(1) by (auto split: sum.splits)
  from processContent_plan[OF answered(2)] obtain new where
    new: "tr2 = (tr @ [?first]) @ new" by blast
  with assms(2) eq have "Send p (Inl x) \<in> set (drop (length (tr @ [?first])) tr2)"
    by auto
  from processContent_gateway_failure[OF answered(2) this] obtain pre where
    "r = Inl (Error (''Failed to invoke Bedrock model: '' @ message_of x))"
    "tr2 = (tr @ [?first]) @ pre @
             [Send p (Inl x), ConsoleErr ''Error invoking Bedrock model:'' x]"
    by blast
  with eq show ?thesis by (intro conjI exI[of _ "?first # pre"]) simp_all
qed

lemma chatLoop_while_extends:
  "chatLoop_while E tls lines tr = (out, tr') \<Longrightarrow> \<exists>new. tr' = tr @ new"
proof (induction lines arbitrary: tr)
  case Nil
  then show ?case by auto
next
  case (Cons message rest)
  let ?tr1 = "tr @ [Question query_prompt (Some message)]"
  obtain r tr2 where pq: "processQuery E tls message ?tr1 = (r, tr2)"
    by (cases "processQuery E tls message ?tr1")
  from processQuery_extends[OF pq] obtain new where new: "tr2 = ?tr1 @ new" by blast
  show ?case
  proof (cases "toLowerCase message = ''quit''")
    case True
    with Cons.prems show ?thesis by (auto simp: Let_def)
  next
    case False
    show ?thesis
    proof (cases r)
      case (Inl e)
      with Cons.prems False pq new show ?thesis by (auto simp: Let_def)
    next
      case (Inr response)
      with Cons.prems False pq have
        "chatLoop_while E tls rest (tr2 @ [Console (CHR 0x0A # response)]) = (out, tr')"
        by (simp add: Let_def)
      from Cons.IH[OF this] new show ?thesis by auto
    qed
  qed
qed

text \<open>A failed model call ends the \<open>while\<close> loop: the exception leaves it.\<close>

lemma chatLoop_while_gateway_failure:
  assumes "chatLoop_while E tls lines tr = (out, tr')"
    and "Send p (Inl x) \<in> set (drop (length tr) tr')"
  shows "out = Threw (Error (''Failed to invoke Bedrock model: '' @ message_of x)) \<and>
         (\<exists>pre. tr' = tr @ pre @
                   [Send p (Inl x), ConsoleErr ''Error invoking Bedrock model:'' x])"
  using assms
proof (induction lines arbitrary: tr)
  case Nil
  then show ?case by auto
next
  case (Cons message rest)
  let ?q = "Question query_prompt (Some message)"
  let ?tr1 = "tr @ [?q]"
  obtain r tr2 where pq: "processQuery E tls message ?tr1 = (r, tr2)"
    by (cases "processQuery E tls message ?tr1")
  from processQuery_extends[OF pq] obtain new where new: "tr2 = ?tr1 @ new" by blast
  show ?case
  proof (cases "toLowerCase message = ''quit''")
    case True
    with Cons.prems show ?thesis by (auto simp: Let_def)
  next
    case False
    show ?thesis
    proof (cases r)
      case (Inl e)
      with Cons.prems(1) False pq have out: "out = Threw e" "tr' = tr2"
        by (simp_all add: Let_def)
      with Cons.prems(2) new have "Send p (Inl x) \<in> set (drop (length ?tr1) tr2)" by auto
      from processQuery_gateway_failure[OF pq this] obtain pre where
        "r = Inl (Error (''Failed to invoke Bedrock model: '' @ message_of x))"
        "tr2 = ?tr1 @ pre @ [Send p (Inl x), ConsoleErr ''Error invoking Bedrock model:'' x]"
        by blast
      with out Inl show ?thesis by (intro conjI exI[of _ "?q # pre"]) simp_all
    next
      case (Inr response)
      let ?tr3 = "tr2 @ [Console (CHR 0x0A # response)]"
      from Inr Cons.prems(1) False pq have
        rest: "chatLoop_while E tls rest ?tr3 = (out, tr')"
        by (simp add: Let_def)
      from chatLoop_while_extends[OF rest] obtain new' where new': "tr' = ?tr3 @ new'"
        by blast
      have "Send p (Inl x) \<notin> set (drop (length ?tr1) tr2)"
        using processQuery_gateway_failure[OF pq] Inr by blast
      with Cons.prems(2) new new' have "Send p (Inl x) \<in> set (drop (length ?tr3) tr')"
        by auto
      from Cons.IH[OF rest this] obtain pre where
        "out = Threw (Error (''Failed to invoke Bedrock model: '' @ message_of x))"
        "tr' = ?tr3 @ pre @ [Send p (Inl x), ConsoleErr ''Error invoking Bedrock model:'' x]"
        by blast
      with new show ?thesis
        by (intro conjI exI[of _ "?q # new @ Console (CHR 0x0A # response) # pre"]) simp_all
    qed
  qed
qed

text \<open>Connecting makes no model call.\<close>

lemma connectWithTransport_no_send:
  "connectWithTransport E c tr = (res, tr') \<Longrightarrow>
   \<exists>new. tr' = tr @ new \<and> (\<forall>e\<in>set new. \<not> is_Send e)"
  by (auto simp: connectWithTransport_def Let_def split: option.splits sum.splits)

lemma connectWithTransport_auth_no_send:
  assumes "connectWithTransport_auth E c tr = (res, tr')"
  shows "\<exists>new. tr' = tr @ new \<and> (\<forall>e\<in>set new. \<not> is_Send e)"
proof (cases "client_transport c")
  case None
  with assms show ?thesis by (simp add: connectWithTransport_auth_def)
next
  case (Some t)
  obtain r t1 where inner: "connectWithTransport E c tr = (r, t1)"
    by (cases "connectWithTransport E c tr")
  from connectWithTransport_no_send[OF inner] obtain new where
    new: "t1 = tr @ new" "\<forall>e\<in>set new. \<not> is_Send e" by blast
  show ?thesis
  proof (cases r)
    case (Inl e)
    with assms Some inner have "tr' = tr @ (new @ [ConsoleErr ''Failed to connect to MCP server:'' e])"
      using new(1) by (simp add: connectWithTransport_auth_def)
    moreover have "\<forall>e'\<in>set (new @ [ConsoleErr ''Failed to connect to MCP server:'' e]).
                     \<not> is_Send e'"
      using new(2) by simp
    ultimately show ?thesis by blast
  next
    case (Inr c')
    with assms Some inner have "tr' = tr @ new"
      using new(1) by (simp add: connectWithTransport_auth_def)
    with new(2) show ?thesis by blast
  qed
qed

lemma connectToLocalServer_auth_no_send:
  assumes "connectToLocalServer_auth E c path tr = (res, tr')"
  shows "\<exists>new. tr' = tr @ new \<and> (\<forall>e\<in>set new. \<not> is_Send e)"
proof (cases "\<not> endsWith path ''.js'' \<and> \<not> endsWith path ''.py''")
  case True
  with assms show ?thesis by (simp add: connectToLocalServer_auth_def)
next
  case False
  with assms show ?thesis
    by (auto simp: connectToLocalServer_auth_def Let_def
        intro!: connectWithTransport_auth_no_send)
qed

lemma loadConfig_for_logs:
  "loadConfig_for E ps tr = (cfg, tr') \<Longrightarrow> \<exists>new. tr' = tr @ new \<and> list_all quiet new"
proof (induction ps arbitrary: tr)
  case Nil
  then show ?case by simp
next
  case (Cons p ps)
  show ?case
  proof (cases "tryPath E p")
    case None
    with Cons.prems have "loadConfig_for E ps tr = (cfg, tr')" by simp
    from Cons.IH[OF this] show ?thesis .
  next
    case (Some outcome)
    show ?thesis
    proof (cases outcome)
      case (Inl e)
      let ?w = "ConsoleErr (''Failed to read config from '' @ p @ '':'') e"
      from Inl Some Cons.prems have "loadConfig_for E ps (tr @ [?w]) = (cfg, tr')" by simp
      from Cons.IH[OF this] obtain new where "tr' = (tr @ [?w]) @ new" "list_all quiet new"
        by blast
      then have "tr' = tr @ (?w # new)" "list_all quiet (?w # new)"
        by (simp_all add: quiet_def)
      then show ?thesis by blast
    next
      case (Inr found)
      with Some Cons.prems show ?thesis by simp
    qed
  qed
qed

lemma loadConfig_logs:
  "loadConfig E configPath tr = (cfg, tr') \<Longrightarrow> \<exists>new. tr' = tr @ new \<and> list_all quiet new"
  unfolding loadConfig_def Let_def by (rule loadConfig_for_logs)

lemma orPrompt_no_send:
  "orPrompt E v prompt isPassword tr = (s, tr') \<Longrightarrow>
   \<exists>new. tr' = tr @ new \<and> (\<forall>e\<in>set new. \<not> is_Send e)"
  by (auto simp: orPrompt_def promptForInput_def Let_def split: option.splits if_splits)

lemma connectToRemoteServer_auth_no_send:
  assumes "connectToRemoteServer_auth E c serverName configPath username password tr = (res, tr')"
  shows "\<exists>new. tr' = tr @ new \<and> (\<forall>e\<in>set new. \<not> is_Send e)"
proof -
  obtain cfg tr1 where lc: "loadConfig E configPath tr = (cfg, tr1)"
    by (cases "loadConfig E configPath tr")
  from loadConfig_logs[OF lc] obtain n1 where
    n1: "tr1 = tr @ n1" "\<forall>e\<in>set n1. \<not> is_Send e"
    by (auto simp: list_all_iff quiet_def)
  show ?thesis
  proof (cases "lookupServer cfg serverName")
    case None
    with assms lc n1 show ?thesis by (auto simp: connectToRemoteServer_auth_def)
  next
    case (Some sc)
    let ?hello = "Console (''Connecting to remote server: '' @ serverName)"
    let ?tr2 = "tr1 @ [?hello]"
    show ?thesis
    proof (cases "truthy (cfg_url sc)")
      case url: (Some url)
      obtain u tr3 where p1: "orPrompt E username ''GitHub Username: '' False ?tr2 = (u, tr3)"
        by (cases "orPrompt E username ''GitHub Username: '' False ?tr2")
      obtain pw tr4 where p2: "orPrompt E password ''GitHub Password/Token: '' True tr3 = (pw, tr4)"
        by (cases "orPrompt E password ''GitHub Password/Token: '' True tr3")
      from orPrompt_no_send[OF p1] obtain n3 where
        n3: "tr3 = ?tr2 @ n3" "\<forall>e\<in>set n3. \<not> is_Send e" by blast
      from orPrompt_no_send[OF p2] obtain n4 where
        n4: "tr4 = tr3 @ n4" "\<forall>e\<in>set n4. \<not> is_Send e" by blast
      let ?using = "Console (''Using mcp-remote to connect to: '' @ url)"
      let ?tr5 = "tr4 @ [?using]"
      have upto3: "tr3 = tr @ (n1 @ [?hello] @ n3)" "\<forall>e\<in>set (n1 @ [?hello] @ n3). \<not> is_Send e"
        using n1 n3 by auto
      have upto4: "tr4 = tr @ (n1 @ [?hello] @ n3 @ n4)"
        "\<forall>e\<in>set (n1 @ [?hello] @ n3 @ n4). \<not> is_Send e"
        using n1 n3 n4 by auto
      show ?thesis
      proof (cases u)
        case None
        with assms lc Some url p1 have "tr' = tr3"
          by (simp add: connectToRemoteServer_auth_def Let_def)
        with upto3 show ?thesis by blast
      next
        case user: (Some githubUsername)
        show ?thesis
        proof (cases pw)
          case None
          with assms lc Some url p1 p2 user have "tr' = tr4"
            by (simp add: connectToRemoteServer_auth_def Let_def)
          with upto4 show ?thesis by blast
        next
          case pass: (Some githubPassword)
          from assms lc Some url p1 p2 user pass obtain c' r where
            "connectWithTransport_auth E c' ?tr5 = (r, tr')"
            by (auto simp: connectToRemoteServer_auth_def Let_def split: prod.splits)
          from connectWithTransport_auth_no_send[OF this] obtain n5 where
            n5: "tr' = ?tr5 @ n5" "\<forall>e\<in>set n5. \<not> is_Send e" by blast
          have "tr' = tr @ (n1 @ [?hello] @ n3 @ n4 @ [?using] @ n5)"
            using upto4(1) n5(1) by simp
          moreover have "\<forall>e\<in>set (n1 @ [?hello] @ n3 @ n4 @ [?using] @ n5). \<not> is_Send e"
            using upto4(2) n5(2) by auto
          ultimately show ?thesis by blast
        qed
      qed
    next
      case None
      show ?thesis
      proof (cases "truthy (cfg_command sc)")
        case no_cmd: None
        with assms lc Some None n1 show ?thesis
          by (auto simp: connectToRemoteServer_auth_def Let_def)
      next
        case cmd: (Some cmd)
        show ?thesis
        proof (cases "cfg_args sc")
          case no_args: None
          with assms lc Some None cmd n1 show ?thesis
            by (auto simp: connectToRemoteServer_auth_def Let_def)
        next
          case args: (Some as)
          let ?line = "Console (''Command: '' @ cmd @ '' '' @ join '' '' as)"
          let ?tr3 = "?tr2 @ [?line]"
          from assms lc Some None cmd args obtain c' r where
            "connectWithTransport_auth E c' ?tr3 = (r, tr')"
            by (auto simp: connectToRemoteServer_auth_def Let_def split: prod.splits)
          from connectWithTransport_auth_no_send[OF this] obtain n5 where
            n5: "tr' = ?tr3 @ n5" "\<forall>e\<in>set n5. \<not> is_Send e" by blast
          have "tr' = tr @ (n1 @ [?hello, ?line] @ n5)"
            using n1(1) n5(1) by simp
          moreover have "\<forall>e\<in>set (n1 @ [?hello, ?line] @ n5). \<not> is_Send e"
            using n1(2) n5(2) by auto
          ultimately show ?thesis by blast
        qed
      qed
    qed
  qed
qed

text \<open>The loop and its \<open>finally\<close> after a failed model call.\<close>

lemma chatLoop_gateway_failure:
  assumes "\<forall>e\<in>set tr. \<not> is_Send e"
    and "chatLoop E tls lines tr = (out, tr')"
    and "Send p (Inl x) \<in> set tr'"
  shows "out = Threw (Error (''Failed to invoke Bedrock model: '' @ message_of x)) \<and>
         (\<exists>pre. tr' = pre @
            [Send p (Inl x), ConsoleErr ''Error invoking Bedrock model:'' x, RlClose])"
proof -
  let ?tr0 = "tr @
            [Console (CHR 0x0A #
               ''MCP Client Started with AWS Bedrock (using IAM role authentication)!''),
             Console ''Type your queries or 'quit' to exit.'']"
  obtain c t where w: "chatLoop_while E tls lines ?tr0 = (c, t)"
    by (cases "chatLoop_while E tls lines ?tr0")
  from chatLoop_while_extends[OF w] obtain new where new: "t = ?tr0 @ new" by blast
  have tr': "tr' = (case c of Pending \<Rightarrow> t | _ \<Rightarrow> t @ [RlClose])" and out: "out = c"
    using assms(2) w by (auto simp: chatLoop_def Let_def split: completion.splits)
  have "Send p (Inl x) \<in> set t"
    using assms(3) tr' by (cases c) auto
  with new assms(1) have "Send p (Inl x) \<in> set (drop (length ?tr0) t)" by auto
  from chatLoop_while_gateway_failure[OF w this] obtain pre where
    pre: "c = Threw (Error (''Failed to invoke Bedrock model: '' @ message_of x))"
      "t = ?tr0 @ pre @ [Send p (Inl x), ConsoleErr ''Error invoking Bedrock model:'' x]"
    by blast
  have "tr' = (?tr0 @ pre) @
          [Send p (Inl x), ConsoleErr ''Error invoking Bedrock model:'' x, RlClose]"
    using tr' pre by simp
  with out pre(1) show ?thesis by blast
qed

lemma main_try_gateway_failure:
  assumes "main_try E c argv lines [] = (out, tr')"
    and "Send p (Inl x) \<in> set tr'"
  shows "out = Threw (Error (''Failed to invoke Bedrock model: '' @ message_of x)) \<and>
         (\<exists>pre. tr' = pre @
            [Send p (Inl x), ConsoleErr ''Error invoking Bedrock model:'' x, RlClose])"
proof -
  consider (usage) "argv = [] \<or> hd argv = ''--help'' \<or> hd argv = ''-h''"
    | (local) "\<not> (argv = [] \<or> hd argv = ''--help'' \<or> hd argv = ''-h'')"
        "hd argv = ''--local'' \<and> length argv > 1"
    | (remote) "\<not> (argv = [] \<or> hd argv = ''--help'' \<or> hd argv = ''-h'')"
        "\<not> (hd argv = ''--local'' \<and> length argv > 1)"
        "hd argv = ''--remote'' \<and> length argv > 1"
    | (invalid) "\<not> (argv = [] \<or> hd argv = ''--help'' \<or> hd argv = ''-h'')"
        "\<not> (hd argv = ''--local'' \<and> length argv > 1)"
        "\<not> (hd argv = ''--remote'' \<and> length argv > 1)"
    by blast
  then show ?thesis
  proof cases
    case usage
    with assms show ?thesis by (auto simp: main_try_def)
  next
    case invalid
    with assms show ?thesis by (auto simp: main_try_def)
  next
    case local
    obtain r tr1 where conn: "connectToLocalServer_auth E c (argv ! 1) [] = (r, tr1)"
      by (cases "connectToLocalServer_auth E c (argv ! 1) []")
    from connectToLocalServer_auth_no_send[OF conn] have quiet1: "\<forall>e\<in>set tr1. \<not> is_Send e"
      by auto
    show ?thesis
    proof (cases r)
      case (Inl e)
      with assms local conn quiet1 show ?thesis by (auto simp: main_try_def)
    next
      case (Inr c')
      with assms(1) local conn have "chatLoop E (client_tools c') lines tr1 = (out, tr')"
        by (simp add: main_try_def)
      from chatLoop_gateway_failure[OF quiet1 this assms(2)] show ?thesis .
    qed
  next
    case remote
    obtain r tr1 where conn:
      "connectToRemoteServer_auth E c (argv ! 1) (argAfter ''--config'' argv)
         (argAfter ''--username'' argv) (argAfter ''--password'' argv) [] = (r, tr1)"
      by (cases "connectToRemoteServer_auth E c (argv ! 1) (argAfter ''--config'' argv)
         (argAfter ''--username'' argv) (argAfter ''--password'' argv) []")
    from connectToRemoteServer_auth_no_send[OF conn] have quiet1: "\<forall>e\<in>set tr1. \<not> is_Send e"
      by auto
    show ?thesis
    proof (cases r)
      case None
      with assms remote conn quiet1 show ?thesis by (auto simp: main_try_def)
    next
      case (Some outcome)
      show ?thesis
      proof (cases outcome)
        case (Inl e)
        with assms remote conn quiet1 Some show ?thesis by (auto simp: main_try_def)
      next
        case (Inr c')
        with assms(1) remote conn Some have
          "chatLoop E (client_tools c') lines tr1 = (out, tr')"
          by (simp add: main_try_def)
        from chatLoop_gateway_failure[OF quiet1 this assms(2)] show ?thesis .
      qed
    qed
  qed
qed

text \<open>
  Claim C5, as the program has it. When a model call throws during a query of the
  interactive loop, the exception leaves the loop. From that call on the process does
  exactly this: it logs the gateway error, closes the line reader, prints the error
  from \<open>main\<close>, closes the tool-server client and exits with status 0. Hence no new
  \<open>Query:\<close> prompt is shown and the call is not retried; everything done before the
  failed call, the answers already printed among it, stays as it was.
\<close>

theorem gateway_failure_ends_the_process:
  assumes "Send p (Inl x) \<in> set (main_auth E argv lines)"
  shows "\<exists>before. main_auth E argv lines = before @
           [Send p (Inl x),
            ConsoleErr ''Error invoking Bedrock model:'' x,
            RlClose,
            ConsoleErr ''Error:'' (Error (''Failed to invoke Bedrock model: '' @ message_of x)),
            McpClose,
            Exit 0]"
proof -
  let ?c0 = "\<lparr>client_transport = None, client_tools = []\<rparr> :: 'a client"
  obtain out tr' where run: "main_try E ?c0 argv lines [] = (out, tr')"
    by (cases "main_try E ?c0 argv lines []")
  have main: "main_auth E argv lines =
                (case out of Pending \<Rightarrow> tr'
                 | Normal \<Rightarrow> tr' @ [McpClose, Exit 0]
                 | Threw e \<Rightarrow> tr' @ [ConsoleErr ''Error:'' e, McpClose, Exit 0])"
    using run by (simp add: main_auth_def)
  have "Send p (Inl x) \<in> set tr'"
    using assms main by (cases out) auto
  from main_try_gateway_failure[OF run this] obtain pre where
    "out = Threw (Error (''Failed to invoke Bedrock model: '' @ message_of x))"
    "tr' = pre @ [Send p (Inl x), ConsoleErr ''Error invoking Bedrock model:'' x, RlClose]"
    by blast
  with main show ?thesis by simp
qed

lemmas shell_simps =
  main_auth_def main_try_def connectToLocalServer_auth_def endsWith_def launcher_def
  connectWithTransport_auth_def connectWithTransport_def chatLoop_def toLowerCase_def
  lower_char_def upper_lower_def

text \<open>
  One session on the concrete environment: a local server, then the lines \<open>hello\<close>,
  \<open>fail\<close> (the model call throws) and \<open>hello\<close> again.
\<close>

lemma demo_session:
  "main_auth demo_env [''--local'', ''server.py''] [''hello'', ''fail'', ''hello''] =
     [McpConnect \<lparr>command = Some ''python3'', args = [''server.py''], env_vars = None\<rparr> (Inr ()),
      ListTools (Inr [Tool ''search'' None ''{}'']),
      ConsoleNames ''Connected to server with tools:'' [''search''],
      Console (CHR 0x0A #
        ''MCP Client Started with AWS Bedrock (using IAM role authentication)!''),
      Console ''Type your queries or 'quit' to exit.'',
      Question query_prompt (Some ''hello''),
      Send (mk_payload (seed ''hello'') [Tool ''search'' None ''{}''])
        (Inr (Response [Text ''Hi.'', Text ''How can I help?''])),
      Console (CHR 0x0A # ''Hi.'' @ [CHR 0x0A] @ ''How can I help?''),
      Question query_prompt (Some ''fail''),
      Send (mk_payload (seed ''fail'') [Tool ''search'' None ''{}'']) (Inl (Error ''timeout'')),
      ConsoleErr ''Error invoking Bedrock model:'' (Error ''timeout''),
      RlClose,
      ConsoleErr ''Error:'' (Error ''Failed to invoke Bedrock model: timeout''),
      McpClose,
      Exit 0]"
  by (simp add: shell_simps demo_simps)

theorem gateway_failure_ends_the_process_witness:
  "\<exists>before.
     main_auth demo_env [''--local'', ''server.py''] [''hello'', ''fail'', ''hello''] =
       before @
         [Send (mk_payload (seed ''fail'') [Tool ''search'' None ''{}'']) (Inl (Error ''timeout'')),
          ConsoleErr ''Error invoking Bedrock model:'' (Error ''timeout''),
          RlClose,
          ConsoleErr ''Error:'' (Error ''Failed to invoke Bedrock model: timeout''),
          McpClose,
          Exit 0]"
proof -
  have failed:
    "Send (mk_payload (seed ''fail'') [Tool ''search'' None ''{}'']) (Inl (Error ''timeout''))
       \<in> set (main_auth demo_env [''--local'', ''server.py''] [''hello'', ''fail'', ''hello''])"
    unfolding demo_session by simp
  show ?thesis
    using gateway_failure_ends_the_process [OF failed] by simp
qed

text \<open>
  Claim C5 as written fails on that session: the model call of the second query
  throws, and the loop does not show the prompt again. The third line is never read:
  the prompt is shown twice only, and the last event is the exit of the process.
\<close>

theorem gateway_failure_counterexample:
  "Send (mk_payload (seed ''fail'') [Tool ''search'' None ''{}'']) (Inl (Error ''timeout''))
     \<in> set (main_auth demo_env [''--local'', ''server.py''] [''hello'', ''fail'', ''hello'']) \<and>
   filter is_Question
     (main_auth demo_env [''--local'', ''server.py''] [''hello'', ''fail'', ''hello'']) =
     [Question query_prompt (Some ''hello''), Question query_prompt (Some ''fail'')] \<and>
   last (main_auth demo_env [''--local'', ''server.py''] [''hello'', ''fail'', ''hello'']) = Exit 0"
  unfolding demo_session by simp

section \<open>C6: local server scripts\<close>

lemma endsWith_js_not_py: "endsWith s ''.js'' \<Longrightarrow> \<not> endsWith s ''.py''"
  by (auto simp: endsWith_def)

text \<open>A connection attempt starts by opening the channel described by the transport.\<close>

lemma connectWithTransport_opens:
  assumes "client_transport c = Some t"
  shows "\<exists>res rest. connectWithTransport E c tr =
           (res, tr @ McpConnect t (mcp_connect E tr t) # rest) \<and> list_all quiet rest"
  using assms
  by (auto simp: connectWithTransport_def Let_def quiet_def split: sum.splits)

text \<open>
  Claim C6. A script path that ends in neither \<open>.js\<close> nor \<open>.py\<close> makes
  \<open>connectToLocalServer\<close> throw, with no event at all, so no channel is opened. A path
  ending in \<open>.py\<close> is launched with \<open>python3\<close> (\<open>python\<close> on win32), a path ending in
  \<open>.js\<close> with the running node executable; the only argument is the path, and the only
  channel opened is that one.
\<close>

theorem connectToLocalServer_by_extension:
  "(\<not> endsWith path ''.js'' \<and> \<not> endsWith path ''.py'' \<longrightarrow>
      connectToLocalServer E c path tr =
        (Inl (Error ''Server script must be a .js or .py file''), tr)) \<and>
   (endsWith path ''.py'' \<longrightarrow>
      (\<exists>res r rest. connectToLocalServer E c path tr =
         (res, tr @ McpConnect
                     \<lparr>command = Some (if platform E = ''win32'' then ''python'' else ''python3''),
                      args = [path], env_vars = None\<rparr> r # rest) \<and> list_all quiet rest)) \<and>
   (endsWith path ''.js'' \<longrightarrow>
      (\<exists>res r rest. connectToLocalServer E c path tr =
         (res, tr @ McpConnect
                     \<lparr>command = Some (execPath E), args = [path], env_vars = None\<rparr> r # rest) \<and>
         list_all quiet rest))"
proof (intro conjI impI)
  assume "\<not> endsWith path ''.js'' \<and> \<not> endsWith path ''.py''"
  then show "connectToLocalServer E c path tr =
        (Inl (Error ''Server script must be a .js or .py file''), tr)"
    by (simp add: connectToLocalServer_def)
next
  let ?t = "\<lparr>command = Some (if platform E = ''win32'' then ''python'' else ''python3''),
             args = [path], env_vars = None\<rparr>"
  let ?c = "c\<lparr>client_transport := Some ?t\<rparr>"
  assume py: "endsWith path ''.py''"
  have "client_transport ?c = Some ?t" by simp
  from connectWithTransport_opens[OF this, of E tr] py
  show "\<exists>res r rest. connectToLocalServer E c path tr = (res, tr @ McpConnect ?t r # rest) \<and>
          list_all quiet rest"
    by (auto simp: connectToLocalServer_def launcher_def Let_def)
next
  let ?t = "\<lparr>command = Some (execPath E), args = [path], env_vars = None\<rparr>"
  let ?c = "c\<lparr>client_transport := Some ?t\<rparr>"
  assume js: "endsWith path ''.js''"
  have "client_transport ?c = Some ?t" by simp
  from connectWithTransport_opens[OF this, of E tr] js endsWith_js_not_py[OF js]
  show "\<exists>res r rest. connectToLocalServer E c path tr = (res, tr @ McpConnect ?t r # rest) \<and>
          list_all quiet rest"
    by (auto simp: connectToLocalServer_def launcher_def Let_def)
qed

theorem connectToLocalServer_by_extension_witness:
  "connectToLocalServer demo_env \<lparr>client_transport = None, client_tools = []\<rparr> ''server.rb'' [] =
     (Inl (Error ''Server script must be a .js or .py file''), []) \<and>
   (\<exists>res r rest.
      connectToLocalServer demo_env \<lparr>client_transport = None, client_tools = []\<rparr> ''server.py'' [] =
        (res, McpConnect \<lparr>command = Some ''python3'', args = [''server.py''], env_vars = None\<rparr> r
                # rest)) \<and>
   (\<exists>res r rest.
      connectToLocalServer demo_env \<lparr>client_transport = None, client_tools = []\<rparr> ''tool.js'' [] =
        (res, McpConnect \<lparr>command = Some ''/usr/bin/node'', args = [''tool.js''], env_vars = None\<rparr> r
                # rest))"
proof -
  let ?c = "\<lparr>client_transport = None, client_tools = []\<rparr> :: string client"
  have rb: "\<not> endsWith ''server.rb'' ''.js'' \<and> \<not> endsWith ''server.rb'' ''.py''"
    by (simp add: endsWith_def)
  have py: "endsWith ''server.py'' ''.py''" by (simp add: endsWith_def)
  have js: "endsWith ''tool.js'' ''.js''" by (simp add: endsWith_def)
  have env: "platform demo_env = ''linux''" "execPath demo_env = ''/usr/bin/node''"
    by (simp_all add: demo_env_def)
  have a: "connectToLocalServer demo_env ?c ''server.rb'' [] =
     (Inl (Error ''Server script must be a .js or .py file''), [])"
    using connectToLocalServer_by_extension [of "''server.rb''" demo_env ?c "[]"] rb by blast
  have b: "\<exists>res r rest. connectToLocalServer demo_env ?c ''server.py'' [] =
        (res, McpConnect \<lparr>command = Some ''python3'', args = [''server.py''], env_vars = None\<rparr> r
                # rest)"
    using connectToLocalServer_by_extension [of "''server.py''" demo_env ?c "[]"] py env
    by auto
  have c: "\<exists>res r rest. connectToLocalServer demo_env ?c ''tool.js'' [] =
        (res, McpConnect \<lparr>command = Some ''/usr/bin/node'', args = [''tool.js''], env_vars = None\<rparr> r
                # rest)"
    using connectToLocalServer_by_extension [of "''tool.js''" demo_env ?c "[]"] js env
    by auto
  show ?thesis using a b c by blast
qed

section \<open>C7: remote configuration entries\<close>








section \<open>C8: where the configuration comes from\<close>

lemma tryPath_parsed:
  "parsed E p = (case tryPath E p of Some (Inr cfg) \<Rightarrow> Some cfg | _ \<Rightarrow> None)"
  by (simp add: parsed_def tryPath_def split: sum.splits)

lemma loadConfig_for_first:
  "fst (loadConfig_for E ps tr) =
     (case first_parsed E ps of Some cfg \<Rightarrow> cfg | None \<Rightarrow> Config (Some Map.empty))"
proof (induction ps arbitrary: tr)
  case Nil
  then show ?case by simp
next
  case (Cons p ps)
  then show ?case
    by (simp add: tryPath_parsed split: option.splits sum.splits)
qed

lemma homeDir_explicit:
  "homeDir E =
     (case process_env E ''HOME'' of
        Some (h # hs) \<Rightarrow> h # hs
      | _ \<Rightarrow> (case process_env E ''USERPROFILE'' of Some (u # us) \<Rightarrow> u # us | _ \<Rightarrow> []))"
  by (simp add: homeDir_def split: option.splits list.splits)

text \<open>
  Without an explicit path, \<open>loadConfig\<close> returns the configuration of the first of
  three files that exists, can be read and parses: \<open>.mcp.json\<close> in the current
  directory, then \<open>mcp-config.json\<close> in the current directory, then
  \<open>.mcp/config.json\<close> under the user's directory, which is \<open>HOME\<close> when that is set and
  not empty, else \<open>USERPROFILE\<close> when that is set and not empty, else the empty path.
  When none of them does, it returns the empty server map.
\<close>

lemma loadConfig_default_order:
  "fst (loadConfig E None tr) =
     (case first_parsed E
             [path_join E [cwd E, ''.mcp.json''],
              path_join E [cwd E, ''mcp-config.json''],
              path_join E
                [case process_env E ''HOME'' of
                   Some (h # hs) \<Rightarrow> h # hs
                 | _ \<Rightarrow> (case process_env E ''USERPROFILE'' of
                           Some (u # us) \<Rightarrow> u # us
                         | _ \<Rightarrow> []),
                 ''.mcp'', ''config.json'']] of
        Some cfg \<Rightarrow> cfg
      | None \<Rightarrow> Config (Some Map.empty))"
  by (simp add: loadConfig_def defaultPaths_def loadConfig_for_first homeDir_explicit
      del: loadConfig_for.simps first_parsed.simps)

lemma lookupServer_empty:
  "lookupServer (Config (Some Map.empty)) serverName =
     (if serverName \<in> set prototype_names then Some (ServerConfig None None None) else None)"
  by (simp add: lookupServer_def)

text \<open>
  With the empty server map, a name that no object inherits is reported as not found,
  in index.ts and in index_auth.ts.
\<close>

lemma empty_map_not_found:
  assumes "fst (loadConfig E configPath tr) = Config (Some Map.empty)"
    and "serverName \<notin> set prototype_names"
  shows "fst (connectToRemoteServer E c serverName configPath tr) = Inl (notFound serverName)"
    and "fst (connectToRemoteServer_auth E c serverName configPath username password tr) =
           Some (Inl (notFound serverName))"
proof -
  obtain cfg tr1 where lc: "loadConfig E configPath tr = (cfg, tr1)"
    by (cases "loadConfig E configPath tr")
  with assms(1) have cfg: "cfg = Config (Some Map.empty)" by simp
  show "fst (connectToRemoteServer E c serverName configPath tr) = Inl (notFound serverName)"
    using lc cfg assms(2) by (simp add: connectToRemoteServer_def lookupServer_empty)
  show "fst (connectToRemoteServer_auth E c serverName configPath username password tr) =
           Some (Inl (notFound serverName))"
    using lc cfg assms(2) by (simp add: connectToRemoteServer_auth_def lookupServer_empty)
qed

lemma bare_loadConfig: "loadConfig bare_env None [] = (Config (Some Map.empty), [])"
  by (simp add: loadConfig_def defaultPaths_def tryPath_def bare_env_def)

text \<open>
  Claim C8. The order of the three default files and the fallback to the empty server
  map are as the claim says (\<open>loadConfig_default_order\<close>). Its last part, that the
  empty map makes every lookup of a server by name fail, does not hold of the program
  for the names that every object inherits. With no configuration file at all and the
  server name \<open>toString\<close>: \<open>loadConfig\<close> returns the empty map, the lookup
  \<open>config.mcpServers[serverName]\<close> finds the inherited member, so the not-found check
  passes; index.ts then throws a \<open>TypeError\<close> on \<open>args.join\<close> and index_auth.ts throws
  the invalid-configuration error. The name \<open>docs\<close> is reported as not found.
\<close>

theorem inherited_name_is_found:
  "loadConfig bare_env None [] = (Config (Some Map.empty), []) \<and>
   lookupServer (Config (Some Map.empty)) ''toString'' = Some (ServerConfig None None None) \<and>
   connectToRemoteServer bare_env \<lparr>client_transport = None, client_tools = []\<rparr>
     ''toString'' None [] =
     (Inl (TypeError ''Cannot read properties of undefined (reading 'join')''),
      [Console ''Connecting to remote server: toString'']) \<and>
   connectToRemoteServer_auth bare_env \<lparr>client_transport = None, client_tools = []\<rparr>
     ''toString'' None None None [] =
     (Some (Inl invalidConfig), [Console ''Connecting to remote server: toString'']) \<and>
   connectToRemoteServer bare_env \<lparr>client_transport = None, client_tools = []\<rparr>
     ''docs'' None [] = (Inl (notFound ''docs''), [])"
  by (simp add: bare_loadConfig connectToRemoteServer_def connectToRemoteServer_auth_def
      lookupServer_def prototype_names_def)

end
